theory Spec2Isabelle
  imports Complex_Main "HOL-Library.Word" "HOL-Library.Sublist"
begin

section \<open>Python library behaviour used by the loaders\<close>

text \<open>
  The exceptions the two loader classes of \<^verbatim>\<open>gdi/imp_layers.py\<close> can raise. The
  argument of \<open>Exception\<close> is its message, that of \<open>KeyError\<close> the missing key and
  that of \<open>IOError\<close> the path that could not be opened.
\<close>

datatype error =
    KeyError string
  | Exception string
  | IOError string
  | ValueError
  | IndexError
  | AttributeError string

subsection \<open>\<^verbatim>\<open>str.splitlines\<close> and the \<^verbatim>\<open>in\<close> test on strings\<close>

text \<open>
  The line boundaries of \<^verbatim>\<open>str.splitlines\<close> among the 8-bit characters: line feed,
  carriage return, vertical tab, form feed, file, group and record separator, next line.
  A carriage return followed by a line feed is one boundary.
\<close>

definition is_linebreak :: "char \<Rightarrow> bool" where
  "is_linebreak c \<longleftrightarrow>
     c = CHR 0x0A \<or> c = CHR 0x0D \<or> c = CHR 0x0B \<or> c = CHR 0x0C \<or>
     c = CHR 0x1C \<or> c = CHR 0x1D \<or> c = CHR 0x1E \<or> c = CHR 0x85"

text \<open>
  \<open>splitlines_from cur s\<close> scans \<open>s\<close> with \<open>cur\<close> the line read so far. A line is
  emitted at every boundary, also when it is empty; at the end of the text the pending
  line is emitted only when it is not empty, so a final boundary opens no further line.
\<close>

fun splitlines_from :: "string \<Rightarrow> string \<Rightarrow> string list" where
  "splitlines_from cur [] = (if cur = [] then [] else [cur])"
| "splitlines_from cur (c # cs) =
     (if c = CHR 0x0D then
        (case cs of
           [] \<Rightarrow> cur # splitlines_from [] cs
         | d # ds \<Rightarrow>
             if d = CHR 0x0A then cur # splitlines_from [] ds
             else cur # splitlines_from [] cs)
      else if is_linebreak c then cur # splitlines_from [] cs
      else splitlines_from (cur @ [c]) cs)"

definition splitlines :: "string \<Rightarrow> string list" where
  "splitlines s = splitlines_from [] s"

text \<open>\<^verbatim>\<open>sub in s\<close> for two strings: \<open>sub\<close> occurs in \<open>s\<close> as a contiguous run.\<close>

fun str_contains :: "string \<Rightarrow> string \<Rightarrow> bool" where
  "str_contains sub [] = (sub = [])"
| "str_contains sub (c # cs) = (prefix sub (c # cs) \<or> str_contains sub cs)"

text \<open>
  \<^verbatim>\<open>xs[i]\<close> for an integer \<open>i\<close>: positions from the front for \<open>0 \<le> i\<close>, from
  the back for \<open>i < 0\<close>, and \<^verbatim>\<open>IndexError\<close> outside \<open>-len(xs) \<le> i < len(xs)\<close>.
\<close>

definition list_get :: "'a list \<Rightarrow> int \<Rightarrow> error + 'a" where
  "list_get xs i =
     (if 0 \<le> i \<and> i < int (length xs) then Inr (xs ! nat i)
      else if i < 0 \<and> - int (length xs) \<le> i then Inr (xs ! nat (int (length xs) + i))
      else Inl IndexError)"

subsection \<open>The module \<^verbatim>\<open>random\<close>\<close>

text \<open>
  The generator behind \<^verbatim>\<open>random\<close> is not part of the repository, so it is a parameter:
  \<open>seed_with n\<close> is the state after \<^verbatim>\<open>random.seed(n)\<close> for an integer \<open>n\<close>, and
  \<open>randbelow g n\<close> is the generator's draw below \<open>n\<close> from state \<open>g\<close> together with the
  next state. \<^verbatim>\<open>random.seed(None)\<close> seeds from the operating system; the state it
  installs is an input of its own (\<open>entropy\<close>).
\<close>

record 'g random_lib =
  seed_with :: "int \<Rightarrow> 'g"
  randbelow :: "'g \<Rightarrow> nat \<Rightarrow> nat \<times> 'g"

definition random_seed :: "'g random_lib \<Rightarrow> 'g \<Rightarrow> int option \<Rightarrow> 'g" where
  "random_seed lib entropy s = (case s of None \<Rightarrow> entropy | Some n \<Rightarrow> seed_with lib n)"

text \<open>
  \<^verbatim>\<open>random.randint(a, b)\<close> is \<^verbatim>\<open>randrange(a, b + 1)\<close>: it raises \<^verbatim>\<open>ValueError\<close> on an
  empty range and otherwise returns \<open>a\<close> plus a draw below the width \<open>b + 1 - a\<close>.
\<close>

definition randint :: "'g random_lib \<Rightarrow> 'g \<Rightarrow> int \<Rightarrow> int \<Rightarrow> error + int \<times> 'g" where
  "randint lib g a b =
     (if b + 1 - a \<le> 0 then Inl ValueError
      else case randbelow lib g (nat (b + 1 - a)) of (r, g') \<Rightarrow> Inr (a + int r, g'))"

text \<open>The documented contract of the generator: a draw below \<open>n\<close> is below \<open>n\<close>.\<close>

definition lib_ok :: "'g random_lib \<Rightarrow> bool" where
  "lib_ok lib \<longleftrightarrow> (\<forall>g n. 0 < n \<longrightarrow> fst (randbelow lib g n) < n)"

section \<open>Arrays, files and the host framework\<close>

text \<open>
  A NumPy array is nested lists under a constructor per axis; \<open>shape\<close> reads the extent
  of every axis along the first entries, as the arrays here are rectangular.
\<close>

datatype 'a ndarray = Scalar 'a | Array "'a ndarray list"

fun shape :: "'a ndarray \<Rightarrow> nat list" where
  "shape (Scalar a) = []"
| "shape (Array []) = [0]"
| "shape (Array (x # xs)) = Suc (length xs) # shape x"

definition of_list2 :: "'a list list \<Rightarrow> 'a ndarray" where
  "of_list2 a = Array (map (\<lambda>row. Array (map Scalar row)) a)"

definition of_list3 :: "'a list list list \<Rightarrow> 'a ndarray" where
  "of_list3 a = Array (map of_list2 a)"

text \<open>
  What \<^verbatim>\<open>np.array(im)\<close> yields for an opened picture \<open>im\<close> with 8-bit samples: rows of
  samples for a single-band picture, rows of pixels of bands for a multi-band one.
\<close>

datatype picture =
    Gray "8 word list list"
  | Bands "8 word list list list"

text \<open>
  The files the loaders read: \<open>text_file p\<close> is what \<^verbatim>\<open>open(p, 'r').read()\<close> returns
  and \<open>image_file p\<close> the picture \<^verbatim>\<open>Image.open(p)\<close> decodes; \<open>None\<close> where the call
  raises because the file is missing or unreadable.
\<close>

record filesystem =
  text_file :: "string \<Rightarrow> string option"
  image_file :: "string \<Rightarrow> picture option"

text \<open>
  A blob of the host framework: its shape, and the array last copied into it (booleans
  stored as 0 and 1).
\<close>

record blob =
  bshape :: "nat list"
  bdata :: "rat ndarray option"

text \<open>
  \<open>broadcastable s d\<close>: an array of shape \<open>s\<close> can be assigned to \<^verbatim>\<open>dst[...]\<close> for
  \<open>dst\<close> of shape \<open>d\<close>. Axes are matched from the last one; an axis of the source has
  the extent of the destination or extent 1, and further leading axes have extent 1.
\<close>

fun bc_rev :: "nat list \<Rightarrow> nat list \<Rightarrow> bool" where
  "bc_rev [] d = True"
| "bc_rev (s # ss) [] = (s = 1 \<and> bc_rev ss [])"
| "bc_rev (s # ss) (d # ds) = ((s = d \<or> s = 1) \<and> bc_rev ss ds)"

definition broadcastable :: "nat list \<Rightarrow> nat list \<Rightarrow> bool" where
  "broadcastable s d = bc_rev (rev s) (rev d)"

section \<open>The loader classes\<close>

text \<open>
  The two classes differ in the key of the data directory and in the two
  subdirectories they read from.
\<close>

datatype variant = GDIDataLayerImp | GDIValDataLayer

fun dir_key :: "variant \<Rightarrow> string" where
  "dir_key GDIDataLayerImp = ''train_dir''"
| "dir_key GDIValDataLayer = ''val_dir''"

fun image_dir :: "variant \<Rightarrow> string" where
  "image_dir GDIDataLayerImp = ''gd_train''"
| "image_dir GDIValDataLayer = ''gd_val''"

fun label_dir :: "variant \<Rightarrow> string" where
  "label_dir GDIDataLayerImp = ''gd_imp_train''"
| "label_dir GDIValDataLayer = ''gd_imp_val''"

text \<open>
  The dictionary \<^verbatim>\<open>eval(self.param_str)\<close> yields, with a field per key the loaders
  read; \<open>None\<close> where the key is absent. \<open>p_dir\<close> is the entry under \<open>dir_key\<close>.
\<close>

record params =
  p_dir :: "string option"
  p_split :: "string option"
  p_mean :: "rat list option"
  p_randomize :: "bool option"
  p_seed :: "int option"
  p_binarize :: "bool option"

datatype label_array = BoolArr "bool ndarray" | FloatArr "rat ndarray"

fun label_shape :: "label_array \<Rightarrow> nat list" where
  "label_shape (BoolArr a) = shape a"
| "label_shape (FloatArr a) = shape a"

fun label_floats :: "label_array \<Rightarrow> rat ndarray" where
  "label_floats (BoolArr a) = map_ndarray (\<lambda>b. if b then 1 else 0) a"
| "label_floats (FloatArr a) = a"

text \<open>
  The attributes of a loader object. \<open>data\<close> and \<open>label\<close> do not exist before the first
  \<open>reshape\<close>; Python floats are modelled by rationals.
\<close>

record layer =
  maindir :: string
  split :: string
  mean :: "rat list"
  random :: bool
  seed :: "int option"
  binarize :: bool
  indices :: "string list"
  idx :: int
  data :: "rat ndarray option"
  label :: "label_array option"

definition getitem :: "string \<Rightarrow> 'a option \<Rightarrow> error + 'a" where
  "getitem k v = (case v of None \<Rightarrow> Inl (KeyError k) | Some x \<Rightarrow> Inr x)"

definition get_default :: "'a option \<Rightarrow> 'a \<Rightarrow> 'a" where
  "get_default v d = (case v of None \<Rightarrow> d | Some x \<Rightarrow> x)"

definition manifest_path :: "string \<Rightarrow> string \<Rightarrow> string" where
  "manifest_path dir sp = dir @ ''/GDI/'' @ sp @ ''.txt''"

text \<open>
  The method \<^verbatim>\<open>setup\<close> (\<open>setup\<close> is a keyword here): \<open>g\<close> is the state of the module-wide generator at the call; the result is
  the object and the generator's state afterwards, or the exception raised.
\<close>

definition setup_layer ::
  "variant \<Rightarrow> 'g random_lib \<Rightarrow> 'g \<Rightarrow> filesystem \<Rightarrow> params \<Rightarrow> blob list \<Rightarrow> blob list \<Rightarrow> 'g
     \<Rightarrow> error + layer \<times> 'g" where
  "setup_layer v lib entropy fs ps bottoms tops g =
     (case getitem (dir_key v) (p_dir ps) of Inl e \<Rightarrow> Inl e | Inr dir \<Rightarrow>
     (case getitem ''split'' (p_split ps) of Inl e \<Rightarrow> Inl e | Inr sp \<Rightarrow>
     (case getitem ''mean'' (p_mean ps) of Inl e \<Rightarrow> Inl e | Inr mn \<Rightarrow>
     (let rnd = get_default (p_randomize ps) True;
          sd = p_seed ps in
     (case getitem ''binarize'' (p_binarize ps) of Inl e \<Rightarrow> Inl e | Inr bin \<Rightarrow>
      if length tops \<noteq> 2 then Inl (Exception ''Need to define two tops: data and label.'')
      else if length bottoms \<noteq> 0 then Inl (Exception ''Do not define a bottom.'')
      else
       (case text_file fs (manifest_path dir sp) of
          None \<Rightarrow> Inl (IOError (manifest_path dir sp))
        | Some content \<Rightarrow>
           (let ixs = splitlines content;
                rnd' = (if \<not> str_contains ''train'' sp then False else rnd);
                L = \<lparr>maindir = dir, split = sp, mean = mn, random = rnd', seed = sd,
                     binarize = bin, indices = ixs, idx = 0, data = None, label = None\<rparr>
            in if rnd' then
                 (case randint lib (random_seed lib entropy sd) 0 (int (length ixs) - 1) of
                    Inl e \<Rightarrow> Inl e
                  | Inr (i, g') \<Rightarrow> Inr (L\<lparr>idx := i\<rparr>, g'))
               else Inr (L, g))))))))"

text \<open>\<^verbatim>\<open>np.array(im, dtype=np.float32)\<close> on 8-bit samples: the sample's value as a float.\<close>

definition to_float :: "8 word \<Rightarrow> rat" where
  "to_float v = of_nat (unat v)"

text \<open>The extent of the third axis of a three-dimensional array.\<close>

fun channels :: "'a list list list \<Rightarrow> nat" where
  "channels ((p # ps) # rows) = length p"
| "channels rows = 0"

text \<open>
  \<^verbatim>\<open>in_ -= self.mean\<close> on one pixel, for a mean of as many entries as the pixel has
  bands or of one entry; \<open>load_image\<close> raises for any other length before it gets here.
\<close>

definition sub_mean :: "rat list \<Rightarrow> rat list \<Rightarrow> rat list" where
  "sub_mean px mn = (if length mn = 1 then map (\<lambda>x. x - mn ! 0) px else map2 (-) px mn)"

text \<open>\<^verbatim>\<open>in_.transpose((2,0,1))\<close> of rows of pixels with \<open>C\<close> bands: one plane per band.\<close>

definition transpose_201 :: "nat \<Rightarrow> 'a list list list \<Rightarrow> 'a list list list" where
  "transpose_201 C a = map (\<lambda>c. map (map (\<lambda>px. px ! c)) a) [0..<C]"

definition image_path :: "variant \<Rightarrow> string \<Rightarrow> string \<Rightarrow> string" where
  "image_path v dir name = dir @ ''/GDI/'' @ image_dir v @ ''/'' @ name @ ''.jpg''"

definition label_path :: "variant \<Rightarrow> string \<Rightarrow> string \<Rightarrow> string" where
  "label_path v dir name = dir @ ''/GDI/'' @ label_dir v @ ''/'' @ name @ ''.png''"

text \<open>
  \<open>load_image\<close>: a single-band picture is a two-dimensional array, on which the index
  \<^verbatim>\<open>[:,:,::-1]\<close> raises \<^verbatim>\<open>IndexError\<close>; the in-place subtraction raises
  \<^verbatim>\<open>ValueError\<close> unless the mean broadcasts to the array's own shape.
\<close>

definition load_image :: "variant \<Rightarrow> filesystem \<Rightarrow> layer \<Rightarrow> string \<Rightarrow> error + rat ndarray" where
  "load_image v fs L name =
     (case image_file fs (image_path v (maindir L) name) of
        None \<Rightarrow> Inl (IOError (image_path v (maindir L) name))
      | Some (Gray a) \<Rightarrow> Inl IndexError
      | Some (Bands a) \<Rightarrow>
         (let in0 = map (map (map to_float)) a;
              in1 = map (map rev) in0
          in if length (mean L) = channels in1 \<or> length (mean L) = 1
             then Inr (of_list3 (transpose_201 (channels in1)
                         (map (map (\<lambda>px. sub_mean px (mean L))) in1)))
             else Inl ValueError))"

text \<open>The array part of \<open>load_label\<close>: threshold or rescale, then a new leading axis.\<close>

definition label_values :: "bool \<Rightarrow> 8 word ndarray \<Rightarrow> label_array" where
  "label_values bin lab =
     (if bin then BoolArr (Array [map_ndarray (\<lambda>v. 255 * 2 / 3 < to_float v) lab])
      else FloatArr (Array [map_ndarray (\<lambda>v. to_float v / 255) lab]))"

fun picture_array :: "picture \<Rightarrow> 8 word ndarray" where
  "picture_array (Gray a) = of_list2 a"
| "picture_array (Bands a) = of_list3 a"

definition load_label :: "variant \<Rightarrow> filesystem \<Rightarrow> layer \<Rightarrow> string \<Rightarrow> error + label_array" where
  "load_label v fs L name =
     (case image_file fs (label_path v (maindir L) name) of
        None \<Rightarrow> Inl (IOError (label_path v (maindir L) name))
      | Some pic \<Rightarrow> Inr (label_values (binarize L) (picture_array pic)))"

text \<open>
  \<open>reshape\<close> and \<open>forward\<close> return the exception raised, if any, with the object and
  the blobs as the call leaves them; \<open>forward\<close> also returns the generator's state.
\<close>

definition reshape ::
  "variant \<Rightarrow> filesystem \<Rightarrow> layer \<Rightarrow> blob list \<Rightarrow> error option \<times> layer \<times> blob list" where
  "reshape v fs L tops =
     (case list_get (indices L) (idx L) of Inl e \<Rightarrow> (Some e, L, tops) | Inr name \<Rightarrow>
     (case load_image v fs L name of Inl e \<Rightarrow> (Some e, L, tops) | Inr d \<Rightarrow>
     (let L1 = L\<lparr>data := Some d\<rparr> in
     (case list_get (indices L1) (idx L1) of Inl e \<Rightarrow> (Some e, L1, tops) | Inr name' \<Rightarrow>
     (case load_label v fs L1 name' of Inl e \<Rightarrow> (Some e, L1, tops) | Inr l \<Rightarrow>
     (let L2 = L1\<lparr>label := Some l\<rparr> in
     (case tops of [] \<Rightarrow> (Some IndexError, L2, tops) | t0 # rest \<Rightarrow>
     (let t0' = t0\<lparr>bshape := 1 # shape d\<rparr> in
     (case rest of [] \<Rightarrow> (Some IndexError, L2, t0' # rest) | t1 # rest' \<Rightarrow>
        (None, L2, t0' # t1\<lparr>bshape := 1 # label_shape l\<rparr> # rest'))))))))))"

definition forward ::
  "'g random_lib \<Rightarrow> layer \<Rightarrow> blob list \<Rightarrow> 'g \<Rightarrow> error option \<times> layer \<times> blob list \<times> 'g" where
  "forward lib L tops g =
     (case data L of None \<Rightarrow> (Some (AttributeError ''data''), L, tops, g) | Some d \<Rightarrow>
     (case tops of [] \<Rightarrow> (Some IndexError, L, tops, g) | t0 # rest \<Rightarrow>
      if \<not> broadcastable (shape d) (bshape t0) then (Some ValueError, L, tops, g)
      else
     (let t0' = t0\<lparr>bdata := Some d\<rparr> in
     (case label L of None \<Rightarrow> (Some (AttributeError ''label''), L, t0' # rest, g) | Some l \<Rightarrow>
     (case rest of [] \<Rightarrow> (Some IndexError, L, t0' # rest, g) | t1 # rest' \<Rightarrow>
      if \<not> broadcastable (label_shape l) (bshape t1) then (Some ValueError, L, t0' # rest, g)
      else
     (let tops' = t0' # t1\<lparr>bdata := Some (label_floats l)\<rparr> # rest' in
      if random L then
        (case randint lib g 0 (int (length (indices L)) - 1) of
           Inl e \<Rightarrow> (Some e, L, tops', g)
         | Inr (i, g') \<Rightarrow> (None, L\<lparr>idx := i\<rparr>, tops', g'))
      else
        (let L' = L\<lparr>idx := idx L + 1\<rparr> in
         if idx L' = int (length (indices L')) then (None, L'\<lparr>idx := 0\<rparr>, tops', g)
         else (None, L', tops', g))))))))"

definition backward :: "layer \<Rightarrow> blob list \<Rightarrow> bool list \<Rightarrow> blob list \<Rightarrow> layer" where
  "backward L tops propagate_down bottoms = L"

text \<open>
  The spec's \<^verbatim>\<open>ConfigurationError\<close>, following its words: a wrong number of declared
  output or input slots, or a missing required configuration key.
\<close>

definition configuration_error :: "variant \<Rightarrow> error \<Rightarrow> bool" where
  "configuration_error v e \<longleftrightarrow>
     e = Exception ''Need to define two tops: data and label.'' \<or>
     e = Exception ''Do not define a bottom.'' \<or>
     e \<in> set (map KeyError [dir_key v, ''split'', ''mean'', ''binarize''])"

text \<open>
  A sample is loadable when both of its files load: \<open>load_image\<close> and \<open>load_label\<close>
  return an array for its identifier.
\<close>

definition loadable :: "variant \<Rightarrow> filesystem \<Rightarrow> layer \<Rightarrow> string \<Rightarrow> bool" where
  "loadable v fs L name \<longleftrightarrow>
     \<not> isl (load_image v fs L name) \<and> \<not> isl (load_label v fs L name)"

section \<open>The host's loop\<close>

text \<open>
  The host framework asks for a sample by calling \<open>reshape\<close> and then \<open>forward\<close>, and
  stops at the first exception. \<open>run v lib fs n L tops g\<close> is \<open>n\<close> such steps; it returns
  the cursor positions the steps loaded from, in order, with the final object, blobs and
  generator state.
\<close>

fun run ::
  "variant \<Rightarrow> 'g random_lib \<Rightarrow> filesystem \<Rightarrow> nat \<Rightarrow> layer \<Rightarrow> blob list \<Rightarrow> 'g
     \<Rightarrow> error + int list \<times> layer \<times> blob list \<times> 'g" where
  "run v lib fs 0 L tops g = Inr ([], L, tops, g)"
| "run v lib fs (Suc n) L tops g =
     (case reshape v fs L tops of
        (Some e, L1, tops1) \<Rightarrow> Inl e
      | (None, L1, tops1) \<Rightarrow>
         (case forward lib L1 tops1 g of
            (Some e, L2, tops2, g2) \<Rightarrow> Inl e
          | (None, L2, tops2, g2) \<Rightarrow>
             (case run v lib fs n L2 tops2 g2 of
                Inl e \<Rightarrow> Inl e
              | Inr (tr, r) \<Rightarrow> Inr (idx L1 # tr, r))))"

text \<open>A whole run of the iterator: \<open>setup\<close>, then \<open>n\<close> steps on the same blobs.\<close>

definition session ::
  "variant \<Rightarrow> 'g random_lib \<Rightarrow> 'g \<Rightarrow> filesystem \<Rightarrow> params \<Rightarrow> blob list \<Rightarrow> blob list \<Rightarrow> 'g
     \<Rightarrow> nat \<Rightarrow> error + int list \<times> layer \<times> blob list \<times> 'g" where
  "session v lib entropy fs ps bottoms tops g n =
     (case setup_layer v lib entropy fs ps bottoms tops g of
        Inl e \<Rightarrow> Inl e
      | Inr (L, h) \<Rightarrow> run v lib fs n L tops h)"

section \<open>Reference notions of the spec\<close>

text \<open>Rectangular nested lists: \<open>H\<close> rows of \<open>W\<close> entries, the entries with \<open>C\<close> bands.\<close>

definition rect2 :: "nat \<Rightarrow> nat \<Rightarrow> 'a list list \<Rightarrow> bool" where
  "rect2 H W a \<longleftrightarrow> length a = H \<and> list_all (\<lambda>row. length row = W) a"

definition rect3 :: "nat \<Rightarrow> nat \<Rightarrow> nat \<Rightarrow> 'a list list list \<Rightarrow> bool" where
  "rect3 H W C a \<longleftrightarrow>
     length a = H \<and> list_all (\<lambda>row. length row = W \<and> list_all (\<lambda>px. length px = C) row) a"

text \<open>
  The spec's reference computation for \<open>load_image\<close>, following its words: the entry
  at channel \<open>c\<close>, row \<open>i\<close>, column \<open>j\<close> is the source's band \<open>2 - c\<close> at that pixel, as
  a float, minus entry \<open>c\<close> of the mean.
\<close>

definition load_image_ref :: "rat list \<Rightarrow> nat \<Rightarrow> nat \<Rightarrow> 8 word list list list \<Rightarrow> rat list list list" where
  "load_image_ref mn H W img =
     map (\<lambda>c. map (\<lambda>i. map (\<lambda>j. to_float (img ! i ! j ! (2 - c)) - mn ! c) [0..<W]) [0..<H])
       [0..<3]"


text \<open>Rounding to three decimals, halves up.\<close>

definition round3 :: "rat \<Rightarrow> rat" where
  "round3 x = of_int \<lfloor>x * 1000 + 1 / 2\<rfloor> / 1000"

section \<open>Sample inputs\<close>

text \<open>
  Concrete inputs on which the theorems below are instantiated: a small
  generator standing for the library's, an empty blob, parameter dictionaries and files.
\<close>

definition demo_lib :: "nat random_lib" where
  "demo_lib = \<lparr>seed_with = (\<lambda>n. nat \<bar>n\<bar>),
                randbelow = (\<lambda>g n. (g mod n, 3 * g + 1))\<rparr>"

definition blob0 :: blob where
  "blob0 = \<lparr>bshape = [], bdata = None\<rparr>"

definition demo_params :: "string \<Rightarrow> params" where
  "demo_params sp = \<lparr>p_dir = Some ''d'', p_split = Some sp, p_mean = Some [104, 116, 122],
     p_randomize = None, p_seed = Some 7, p_binarize = Some True\<rparr>"

text \<open>A manifest \<^verbatim>\<open>d/GDI/val.txt\<close> with an empty second line.\<close>

definition gap_fs :: filesystem where
  "gap_fs = \<lparr>text_file = (\<lambda>p. if p = ''d/GDI/val.txt''
                 then Some [CHR ''a'', CHR 0x0A, CHR 0x0A, CHR ''b'', CHR 0x0A] else None),
             image_file = (\<lambda>p. None)\<rparr>"

definition gap_layer :: layer where
  "gap_layer = \<lparr>maindir = ''d'', split = ''val'', mean = [104, 116, 122], random = False,
     seed = Some 7, binarize = True, indices = [''a'', [], ''b''], idx = 0,
     data = None, label = None\<rparr>"

text \<open>
  Two samples \<open>a\<close> (one pixel) and \<open>b\<close> (two pixels in a row) under \<^verbatim>\<open>d/GDI\<close>, listed
  by the manifests \<^verbatim>\<open>val.txt\<close> and \<^verbatim>\<open>train.txt\<close>.
\<close>

definition demo_fs :: filesystem where
  "demo_fs = \<lparr>
     text_file = (\<lambda>p. if p = ''d/GDI/val.txt'' \<or> p = ''d/GDI/train.txt''
                      then Some [CHR ''a'', CHR 0x0A, CHR ''b'', CHR 0x0A] else None),
     image_file = (\<lambda>p.
       if p = ''d/GDI/gd_train/a.jpg'' then Some (Bands [[[1, 2, 3]]])
       else if p = ''d/GDI/gd_train/b.jpg'' then Some (Bands [[[4, 5, 6], [7, 8, 9]]])
       else if p = ''d/GDI/gd_imp_train/a.png'' then Some (Gray [[200]])
       else if p = ''d/GDI/gd_imp_train/b.png'' then Some (Gray [[0, 255]])
       else None)\<rparr>"

definition val_layer :: layer where
  "val_layer = \<lparr>maindir = ''d'', split = ''val'', mean = [104, 116, 122], random = False,
     seed = Some 7, binarize = True, indices = [''a'', ''b''], idx = 0,
     data = None, label = None\<rparr>"

definition train_layer :: layer where
  "train_layer = \<lparr>maindir = ''d'', split = ''train'', mean = [104, 116, 122], random = True,
     seed = Some 7, binarize = True, indices = [''a'', ''b''], idx = 1,
     data = None, label = None\<rparr>"

text \<open>Parameters that ask for randomization on the split \<^verbatim>\<open>val\<close>.\<close>

definition val_params :: params where
  "val_params = \<lparr>p_dir = Some ''d'', p_split = Some ''val'', p_mean = Some [104, 116, 122],
     p_randomize = Some True, p_seed = Some 7, p_binarize = Some True\<rparr>"



text \<open>
  A picture \<open>s\<close> of four rows and four columns whose pixel in row \<open>i\<close>, column \<open>j\<close> is
  red \<open>10 i + j\<close>, green \<open>100 + 10 i + j\<close>, blue \<open>200 + 10 i + j\<close>, with a label of the
  same size.
\<close>

definition rgb44 :: "8 word list list list" where
  "rgb44 =
     [[[0, 100, 200], [1, 101, 201], [2, 102, 202], [3, 103, 203]],
      [[10, 110, 210], [11, 111, 211], [12, 112, 212], [13, 113, 213]],
      [[20, 120, 220], [21, 121, 221], [22, 122, 222], [23, 123, 223]],
      [[30, 130, 230], [31, 131, 231], [32, 132, 232], [33, 133, 233]]]"

definition gray44 :: "8 word list list" where
  "gray44 = [[0, 170, 200, 255], [171, 1, 2, 3], [4, 5, 6, 7], [8, 9, 10, 11]]"

definition rgb_fs :: filesystem where
  "rgb_fs = \<lparr>text_file = (\<lambda>p. None),
     image_file = (\<lambda>p. if p = ''d/GDI/gd_train/s.jpg'' then Some (Bands rgb44)
                       else if p = ''d/GDI/gd_imp_train/s.png'' then Some (Gray gray44)
                       else None)\<rparr>"

definition rgb_layer :: layer where
  "rgb_layer = \<lparr>maindir = ''d'', split = ''val'', mean = [104, 116, 122], random = False,
     seed = None, binarize = True, indices = [''s''], idx = 0, data = None, label = None\<rparr>"

section \<open>Facts about the library functions\<close>

lemma splitlines_from_line:
  "\<forall>c\<in>set l. \<not> is_linebreak c \<Longrightarrow>
   splitlines_from cur (l @ CHR 0x0A # rest) = (cur @ l) # splitlines_from [] rest"
  by (induction l arbitrary: cur) (auto simp: is_linebreak_def)

lemma splitlines_from_last:
  "\<forall>c\<in>set l. \<not> is_linebreak c \<Longrightarrow>
   splitlines_from cur l = (if cur @ l = [] then [] else [cur @ l])"
  by (induction l arbitrary: cur) (auto simp: is_linebreak_def)

lemma splitlines_lines:
  "\<forall>l\<in>set ls. \<forall>c\<in>set l. \<not> is_linebreak c \<Longrightarrow>
   \<forall>c\<in>set lst. \<not> is_linebreak c \<Longrightarrow>
   splitlines (concat (map (\<lambda>l. l @ [CHR 0x0A]) ls) @ lst) =
     ls @ (if lst = [] then [] else [lst])"
  unfolding splitlines_def
  by (induction ls) (auto simp: splitlines_from_line splitlines_from_last)

lemma str_contains_sublist: "str_contains sub s \<longleftrightarrow> sublist sub s"
  by (induction s) (auto simp: sublist_Cons_right)

section \<open>Setup\<close>

text \<open>What a successful \<open>setup\<close> has read and stored.\<close>

lemma setup_layer_Inr:
  assumes "setup_layer v lib entropy fs ps bottoms tops g = Inr (L, g')"
  shows "\<exists>dir sp mn bin content.
    p_dir ps = Some dir \<and> p_split ps = Some sp \<and> p_mean ps = Some mn \<and>
    p_binarize ps = Some bin \<and> length tops = 2 \<and> length bottoms = 0 \<and>
    text_file fs (manifest_path dir sp) = Some content \<and>
    L = \<lparr>maindir = dir, split = sp, mean = mn,
         random = (str_contains ''train'' sp \<and> get_default (p_randomize ps) True),
         seed = p_seed ps, binarize = bin, indices = splitlines content, idx = idx L,
         data = None, label = None\<rparr> \<and>
    (if str_contains ''train'' sp \<and> get_default (p_randomize ps) True
     then randint lib (random_seed lib entropy (p_seed ps)) 0
            (int (length (splitlines content)) - 1) = Inr (idx L, g')
     else idx L = 0 \<and> g' = g)"
  using assms
  unfolding setup_layer_def getitem_def Let_def
  by (auto split: option.splits sum.splits if_splits prod.splits)

text \<open>
  C7. \<open>setup\<close> raises a configuration error whenever the caller declares a number of
  output slots other than two or a number of input slots other than zero; with two
  output slots and no input slot neither slot check raises.
\<close>

theorem setup_slots:
  "(length tops \<noteq> 2 \<or> length bottoms \<noteq> 0 \<longrightarrow>
      (\<exists>e. setup_layer v lib entropy fs ps bottoms tops g = Inl e \<and> configuration_error v e)) \<and>
   (length tops = 2 \<and> length bottoms = 0 \<longrightarrow>
      (\<forall>msg. setup_layer v lib entropy fs ps bottoms tops g \<noteq> Inl (Exception msg)))"
  unfolding setup_layer_def getitem_def Let_def configuration_error_def randint_def
  by (auto split: option.splits sum.splits if_splits prod.splits)

theorem setup_slots_witness:
  "(length [blob0] \<noteq> 2 \<and>
    (\<exists>e. setup_layer GDIDataLayerImp demo_lib 0 gap_fs (demo_params ''val'') [] [blob0] 0 = Inl e
         \<and> configuration_error GDIDataLayerImp e)) \<and>
   (length [blob0] \<noteq> 0 \<and>
    (\<exists>e. setup_layer GDIDataLayerImp demo_lib 0 gap_fs (demo_params ''val'') [blob0]
           [blob0, blob0] 0 = Inl e \<and> configuration_error GDIDataLayerImp e)) \<and>
   (length [blob0, blob0] = 2 \<and> length ([] :: blob list) = 0 \<and>
    (\<forall>msg. setup_layer GDIDataLayerImp demo_lib 0 gap_fs (demo_params ''val'') []
           [blob0, blob0] 0 \<noteq> Inl (Exception msg)))"
  using
    setup_slots [where tops = "[blob0]" and bottoms = "[]" and v = GDIDataLayerImp
      and lib = demo_lib and entropy = 0 and fs = gap_fs and ps = "demo_params ''val''" and g = 0]
    setup_slots [where tops = "[blob0, blob0]" and bottoms = "[blob0]" and v = GDIDataLayerImp
      and lib = demo_lib and entropy = 0 and fs = gap_fs and ps = "demo_params ''val''" and g = 0]
    setup_slots [where tops = "[blob0, blob0]" and bottoms = "[]" and v = GDIDataLayerImp
      and lib = demo_lib and entropy = 0 and fs = gap_fs and ps = "demo_params ''val''" and g = 0]
  by simp

text \<open>
  C4, as the spec states it, fails: an empty line of the manifest is an entry of the
  index list. The manifest of \<open>gap_fs\<close> has an empty second line, and the index list
  after \<open>setup\<close> holds the empty identifier between \<open>a\<close> and \<open>b\<close>.
\<close>

theorem setup_keeps_empty_line:
  "setup_layer GDIDataLayerImp demo_lib 0 gap_fs (demo_params ''val'') [] [blob0, blob0] 0 =
     Inr (gap_layer, 0) \<and>
   indices gap_layer = [''a'', [], ''b''] \<and> [] \<in> set (indices gap_layer)"
  by (simp add: setup_layer_def getitem_def get_default_def demo_params_def gap_fs_def
      gap_layer_def manifest_path_def splitlines_def is_linebreak_def)

text \<open>
  C4, amended. \<open>setup\<close> builds the index list from all lines of the manifest, in file
  order, the empty ones included: for a manifest made of the lines \<open>ls\<close>, each ended by
  a line feed, and a last line \<open>lst\<close> without one, the index list is \<open>ls\<close>, followed by
  \<open>lst\<close> when \<open>lst\<close> is not empty. In general the index list is \<open>splitlines\<close> of the
  manifest's content.
\<close>

theorem setup_indices_all_lines:
  assumes "setup_layer v lib entropy fs ps bottoms tops g = Inr (L, g')"
    and "p_dir ps = Some dir" and "p_split ps = Some sp"
    and "text_file fs (manifest_path dir sp) = Some content"
  shows "indices L = splitlines content \<and>
     (content = concat (map (\<lambda>l. l @ [CHR 0x0A]) ls) @ lst \<longrightarrow>
      (\<forall>l\<in>set ls. \<forall>c\<in>set l. \<not> is_linebreak c) \<longrightarrow>
      (\<forall>c\<in>set lst. \<not> is_linebreak c) \<longrightarrow>
      indices L = ls @ (if lst = [] then [] else [lst]))"
proof -
  from setup_layer_Inr [OF assms(1)] assms(2-4)
  obtain mn bin rnd where
    "L = \<lparr>maindir = dir, split = sp, mean = mn, random = rnd, seed = p_seed ps,
          binarize = bin, indices = splitlines content, idx = idx L,
          data = None, label = None\<rparr>"
    by auto
  then have "indices L = indices \<lparr>maindir = dir, split = sp, mean = mn, random = rnd,
      seed = p_seed ps, binarize = bin, indices = splitlines content, idx = idx L,
      data = None, label = None\<rparr>"
    by simp
  then have ix: "indices L = splitlines content" by simp
  then show ?thesis
    using splitlines_lines [of ls lst] by simp
qed

theorem setup_indices_all_lines_witness:
  "setup_layer GDIDataLayerImp demo_lib 0 gap_fs (demo_params ''val'') [] [blob0, blob0] 0 =
     Inr (gap_layer, 0) \<and>
   list_all (list_all (\<lambda>c. \<not> is_linebreak c)) [''a'', [], ''b''] \<and>
   indices gap_layer = [''a'', [], ''b'']"
proof -
  have run: "setup_layer GDIDataLayerImp demo_lib 0 gap_fs (demo_params ''val'') []
      [blob0, blob0] 0 = Inr (gap_layer, 0)"
    by (simp add: setup_layer_def getitem_def get_default_def demo_params_def gap_fs_def
        gap_layer_def manifest_path_def splitlines_def is_linebreak_def)
  have mf: "text_file gap_fs (manifest_path ''d'' ''val'') =
      Some (concat (map (\<lambda>l. l @ [CHR 0x0A]) [''a'', [], ''b'']) @ [])"
    by (simp add: gap_fs_def manifest_path_def)
  have clean: "\<forall>l\<in>set [''a'', [], ''b'']. \<forall>c\<in>set l. \<not> is_linebreak c"
    by (simp add: is_linebreak_def)
  have "indices gap_layer = [''a'', [], ''b'']"
    using setup_indices_all_lines [OF run _ _ mf, of "[''a'', [], ''b'']" "[]"] clean
    by (simp add: demo_params_def splitlines_def is_linebreak_def)
  with run clean show ?thesis by (simp add: list_all_iff)
qed

section \<open>The cursor\<close>

text \<open>\<open>reshape\<close> assigns \<open>data\<close> and \<open>label\<close> and nothing else of the object.\<close>

lemma reshape_frame:
  "reshape v fs L tops = (r, L', tops') \<Longrightarrow>
   idx L' = idx L \<and> indices L' = indices L \<and> random L' = random L \<and> maindir L' = maindir L \<and>
   split L' = split L \<and> mean L' = mean L \<and> seed L' = seed L \<and> binarize L' = binarize L \<and>
   length tops' = length tops"
  unfolding reshape_def Let_def
  by (auto split: sum.splits list.splits)

lemma reshape_None_idx:
  "reshape v fs L tops = (None, L', tops') \<Longrightarrow> - int (length (indices L)) \<le> idx L \<and> idx L < int (length (indices L))"
  unfolding reshape_def Let_def list_get_def
  by (auto split: sum.splits list.splits if_splits)

lemma forward_None:
  "forward lib L tops g = (None, L', tops', g') \<Longrightarrow>
   (if random L
    then randint lib g 0 (int (length (indices L)) - 1) = Inr (idx L', g') \<and> L' = L\<lparr>idx := idx L'\<rparr>
    else g' = g \<and>
         L' = L\<lparr>idx := (if idx L + 1 = int (length (indices L)) then 0 else idx L + 1)\<rparr>)"
  unfolding forward_def Let_def
  by (auto split: option.splits sum.splits list.splits if_splits)

lemma run_Suc_Inr:
  assumes "run v lib fs (Suc n) L tops g = Inr (tr, L', tops', g')"
  obtains L1 tops1 L2 tops2 g2 tr' where
    "reshape v fs L tops = (None, L1, tops1)"
    "forward lib L1 tops1 g = (None, L2, tops2, g2)"
    "run v lib fs n L2 tops2 g2 = Inr (tr', L', tops', g')"
    "tr = idx L1 # tr'"
  using assms
  by (auto split: prod.splits option.splits sum.splits)

lemma run_sequential:
  assumes "run v lib fs n L tops g = Inr (tr, L', tops', g')"
    and "\<not> random L" and "0 \<le> idx L"
  shows "tr = map (\<lambda>k. (idx L + int k) mod int (length (indices L))) [0..<n] \<and>
         idx L' = (if n = 0 then idx L else (idx L + int n) mod int (length (indices L))) \<and>
         \<not> random L' \<and> indices L' = indices L \<and> g' = g"
  using assms
proof (induction n arbitrary: L tops g tr)
  case 0
  then show ?case by simp
next
  case (Suc n)
  from Suc.prems(1) obtain L1 tops1 L2 tops2 g2 tr' where
    rs: "reshape v fs L tops = (None, L1, tops1)" and
    fw: "forward lib L1 tops1 g = (None, L2, tops2, g2)" and
    rn: "run v lib fs n L2 tops2 g2 = Inr (tr', L', tops', g')" and
    tr: "tr = idx L1 # tr'"
    by (rule run_Suc_Inr)
  let ?N = "int (length (indices L))"
  from reshape_frame [OF rs] have f1: "idx L1 = idx L" "indices L1 = indices L" "random L1 = random L"
    by simp_all
  from reshape_None_idx [OF rs] Suc.prems(3) have rng: "idx L < ?N" by simp
  from forward_None [OF fw] f1 Suc.prems(2)
  have L2: "L2 = L1\<lparr>idx := (if idx L + 1 = ?N then 0 else idx L + 1)\<rparr>" and g2: "g2 = g"
    by simp_all
  have i2: "idx L2 = (idx L + 1) mod ?N"
    using L2 rng Suc.prems(3) by (auto simp: mod_pos_pos_trivial)
  have r2: "\<not> random L2" "indices L2 = indices L"
    using L2 f1 Suc.prems(2) by simp_all
  have nn: "0 \<le> idx L2" using L2 Suc.prems(3) by simp
  from Suc.IH [OF rn r2(1) nn]
  have IH: "tr' = map (\<lambda>k. (idx L2 + int k) mod ?N) [0..<n]"
    "idx L' = (if n = 0 then idx L2 else (idx L2 + int n) mod ?N)"
    "\<not> random L'" "indices L' = indices L" "g' = g"
    using r2 g2 by simp_all
  have step: "\<And>k. (idx L2 + int k) mod ?N = (idx L + int (Suc k)) mod ?N"
    unfolding i2 by (simp add: mod_simps ac_simps)
  have hd: "idx L1 = (idx L + int 0) mod ?N"
    using f1 rng Suc.prems(3) by (simp add: mod_pos_pos_trivial)
  have "tr = map (\<lambda>k. (idx L + int k) mod ?N) [0..<Suc n]"
    unfolding tr IH(1) upt_conv_Cons [OF zero_less_Suc] 
    using hd step by (simp add: map_Suc_upt [symmetric] del: upt_Suc)
  moreover have "idx L' = (idx L + int (Suc n)) mod ?N"
    using IH(2) step [of n] i2 by (cases "n = 0") simp_all
  ultimately show ?case using IH(3-5) by simp
qed

text \<open>\<open>forward\<close> returns whenever the \<open>reshape\<close> before it did.\<close>

lemma bc_rev_append: "bc_rev xs (xs @ ys)"
  by (induction xs) auto

lemma broadcastable_batch: "broadcastable s (Suc 0 # s)"
  using bc_rev_append [of "rev s" "[1]"] by (simp add: broadcastable_def)

lemma reshape_None:
  assumes "reshape v fs L tops = (None, L1, tops1)"
  shows "\<exists>name d l t0 t1 rest.
    list_get (indices L) (idx L) = Inr name \<and> load_image v fs L name = Inr d \<and>
    load_label v fs (L\<lparr>data := Some d\<rparr>) name = Inr l \<and> tops = t0 # t1 # rest \<and>
    L1 = L\<lparr>data := Some d, label := Some l\<rparr> \<and>
    tops1 = t0\<lparr>bshape := 1 # shape d\<rparr> # t1\<lparr>bshape := 1 # label_shape l\<rparr> # rest"
  using assms
  unfolding reshape_def Let_def
  by (auto split: sum.splits list.splits)

lemma forward_after_reshape:
  assumes "reshape v fs L tops = (None, L1, tops1)"
  shows "\<exists>L2 tops2 g2. forward lib L1 tops1 g = (None, L2, tops2, g2)"
proof -
  from reshape_None [OF assms] obtain name d l t0 t1 rest where
    nm: "list_get (indices L) (idx L) = Inr name" and
    L1: "L1 = L\<lparr>data := Some d, label := Some l\<rparr>" and
    t1: "tops1 = t0\<lparr>bshape := 1 # shape d\<rparr> # t1\<lparr>bshape := 1 # label_shape l\<rparr> # rest"
    by blast
  from nm have ne: "0 < int (length (indices L))"
    by (auto simp: list_get_def split: if_splits)
  show ?thesis
    unfolding forward_def Let_def L1 t1 randint_def
    using ne by (auto simp: broadcastable_batch split: prod.splits)
qed

lemma load_image_fields:
  assumes "maindir L' = maindir L" and "mean L' = mean L"
  shows "load_image v fs L' name = load_image v fs L name"
  unfolding load_image_def assms by (rule refl)

lemma load_label_fields:
  assumes "maindir L' = maindir L" and "binarize L' = binarize L"
  shows "load_label v fs L' name = load_label v fs L name"
  unfolding load_label_def assms by (rule refl)

lemma loadable_fields:
  "maindir L' = maindir L \<Longrightarrow> mean L' = mean L \<Longrightarrow> binarize L' = binarize L \<Longrightarrow>
   loadable v fs L' name = loadable v fs L name"
  using load_image_fields [of L' L v fs name] load_label_fields [of L' L v fs name]
  by (simp add: loadable_def)

lemma reshape_returns:
  assumes "0 \<le> idx L" and "idx L < int (length (indices L))"
    and "loadable v fs L (indices L ! nat (idx L))" and "length tops = 2"
  shows "\<exists>L1 tops1. reshape v fs L tops = (None, L1, tops1)"
proof -
  let ?name = "indices L ! nat (idx L)"
  have g: "list_get (indices L) (idx L) = Inr ?name"
    using assms(1,2) by (simp add: list_get_def)
  from assms(3) obtain d l where
    d: "load_image v fs L ?name = Inr d" and l: "load_label v fs L ?name = Inr l"
    unfolding loadable_def by (cases "load_image v fs L ?name"; cases "load_label v fs L ?name") auto
  have l': "load_label v fs (L\<lparr>data := Some d\<rparr>) ?name = Inr l"
    using l load_label_fields [of "L\<lparr>data := Some d\<rparr>" L v fs ?name] by simp
  from assms(4) obtain t0 t1 where t: "tops = [t0, t1]"
    by (cases tops; cases "tl tops") auto
  show ?thesis
    unfolding reshape_def Let_def using g d l' t by simp
qed

lemma forward_frame:
  assumes "forward lib L tops g = (r, L', tops', g')"
  shows "indices L' = indices L \<and> random L' = random L \<and> maindir L' = maindir L \<and>
   split L' = split L \<and> mean L' = mean L \<and> seed L' = seed L \<and> binarize L' = binarize L \<and>
   data L' = data L \<and> label L' = label L \<and> length tops' = length tops"
proof -
  define P where "P = (\<lambda>M :: layer. indices M = indices L \<and> random M = random L \<and>
    maindir M = maindir L \<and> split M = split L \<and> mean M = mean L \<and> seed M = seed L \<and>
    binarize M = binarize L \<and> data M = data L \<and> label M = label L)"
  have p1: "P L" and p2: "\<And>i. P (L\<lparr>idx := i\<rparr>)"
    by (simp_all add: P_def)
  have "P (fst (snd (forward lib L tops g)))"
    by (simp add: forward_def Let_def p1 p2
        split: option.split list.split sum.split prod.split)
  moreover have "length (fst (snd (snd (forward lib L tops g)))) = length tops"
    by (simp add: forward_def Let_def split: option.split list.split sum.split prod.split)
  ultimately show ?thesis
    by (simp add: assms P_def)
qed

lemma randint_range:
  assumes "lib_ok lib" and "randint lib g a b = Inr (r, g')"
  shows "a \<le> r \<and> r \<le> b"
proof -
  from assms(2) have w: "\<not> b + 1 - a \<le> 0"
    by (auto simp: randint_def split: if_splits)
  with assms(2) obtain r0 where
    rb: "randbelow lib g (nat (b + 1 - a)) = (r0, g')" and r: "r = a + int r0"
    by (auto simp: randint_def split: prod.splits)
  from assms(1) w have "fst (randbelow lib g (nat (b + 1 - a))) < nat (b + 1 - a)"
    unfolding lib_ok_def by simp
  with rb have "r0 < nat (b + 1 - a)" by simp
  with r show ?thesis by linarith
qed

lemma forward_random:
  assumes "random L" and "forward lib L tops g = (None, L', tops', g')"
  shows "randint lib g 0 (int (length (indices L)) - 1) = Inr (idx L', g') \<and>
         random L' \<and> indices L' = indices L"
proof -
  from forward_None [OF assms(2)] assms(1)
  have d: "randint lib g 0 (int (length (indices L)) - 1) = Inr (idx L', g')"
    and u: "L' = L\<lparr>idx := idx L'\<rparr>"
    by simp_all
  have "random L' = random (L\<lparr>idx := idx L'\<rparr>)" and "indices L' = indices (L\<lparr>idx := idx L'\<rparr>)"
    using u by simp_all
  with d assms(1) show ?thesis by simp
qed

lemma setup_layer_cursor:
  assumes "setup_layer v lib entropy fs ps bottoms tops g = Inr (L, g')"
  shows "p_split ps = Some (split L) \<and> seed L = p_seed ps \<and>
    random L = (str_contains ''train'' (split L) \<and> get_default (p_randomize ps) True) \<and>
    (if random L
     then randint lib (random_seed lib entropy (p_seed ps)) 0 (int (length (indices L)) - 1) =
            Inr (idx L, g')
     else idx L = 0 \<and> g' = g)"
  using assms
  unfolding setup_layer_def getitem_def Let_def
  by (auto split: option.splits sum.splits if_splits prod.splits)

lemma forward_sequential:
  "\<not> random L \<Longrightarrow> forward lib L tops g = (None, L', tops', g') \<Longrightarrow>
   idx L' = (if idx L + 1 = int (length (indices L)) then 0 else idx L + 1) \<and>
   \<not> random L' \<and> indices L' = indices L \<and> g' = g"
  using forward_None [of lib L tops g L' tops' g'] by auto

lemma run_returns:
  assumes "random L \<longrightarrow> lib_ok lib"
    and "0 \<le> idx L" and "idx L < int (length (indices L))"
    and "\<forall>name\<in>set (indices L). loadable v fs L name" and "length tops = 2"
  shows "\<exists>r. run v lib fs n L tops g = Inr r"
  using assms
proof (induction n arbitrary: L tops g)
  case 0
  then show ?case by simp
next
  case (Suc n)
  have "indices L ! nat (idx L) \<in> set (indices L)"
    using Suc.prems(2,3) by simp
  with Suc.prems(4) have "loadable v fs L (indices L ! nat (idx L))" by blast
  from reshape_returns [OF Suc.prems(2,3) this Suc.prems(5)] obtain L1 tops1 where
    rs: "reshape v fs L tops = (None, L1, tops1)" by blast
  note f1 = reshape_frame [OF rs]
  from forward_after_reshape [OF rs, of lib g] obtain L2 tops2 g2 where
    fw: "forward lib L1 tops1 g = (None, L2, tops2, g2)" by blast
  note f2 = forward_frame [OF fw]
  have rnd: "random L2 \<longrightarrow> lib_ok lib"
    using f1 f2 Suc.prems(1) by simp
  have rng: "0 \<le> idx L2 \<and> idx L2 < int (length (indices L2))"
  proof (cases "random L1")
    case True
    with f1 Suc.prems(1) have ok: "lib_ok lib" by simp
    from forward_random [OF True fw]
    have "randint lib g 0 (int (length (indices L1)) - 1) = Inr (idx L2, g2)" by simp
    from randint_range [OF ok this] f2 show ?thesis by simp
  next
    case False
    from forward_sequential [OF False fw] f1 Suc.prems(2,3) show ?thesis
      by (auto split: if_splits)
  qed
  have ld: "\<forall>name\<in>set (indices L2). loadable v fs L2 name"
    using Suc.prems(4) f1 f2 loadable_fields [of L2 L v fs] by simp
  have len: "length tops2 = 2"
    using f1 f2 Suc.prems(5) by simp
  from Suc.IH [OF rnd _ _ ld len, of g2] rng obtain r where
    "run v lib fs n L2 tops2 g2 = Inr r" by blast
  then show ?case
    using rs fw by (cases r) simp
qed

lemma forward_returns:
  assumes "\<not> random L" and "data L = Some d" and "label L = Some l"
    and "broadcastable (shape d) (bshape t0)" and "broadcastable (label_shape l) (bshape t1)"
  shows "\<exists>L' tops'. forward lib L (t0 # t1 # rest) g = (None, L', tops', g) \<and>
     idx L' = (if idx L + 1 = int (length (indices L)) then 0 else idx L + 1)"
  using assms by (simp add: forward_def Let_def)

text \<open>
  C1. For a manifest with \<open>N \<ge> 1\<close> lines, after a \<open>setup\<close> that leaves randomization
  inactive the index list is the manifest's lines and the cursor is 0. A \<open>forward\<close> of
  an object that does not randomize returns whenever the \<open>reshape\<close> before it did (and
  whenever \<open>data\<close> and \<open>label\<close> are loaded and the blobs are shaped for them), and it
  moves the cursor to the next position, and to 0 exactly when that position is \<open>N\<close>.
  Hence, when every sample of the manifest is loadable, \<open>n\<close> steps of the host's loop
  return, the \<open>k\<close>-th of them loads from position \<open>k mod N\<close>, and the cursor is
  \<open>n mod N\<close> afterwards; and any run that returns has visited these positions.
\<close>

theorem sequential_cursor:
  assumes "setup_layer v lib entropy fs ps bottoms tops g = Inr (L, g0)"
    and "\<not> random L"
    and "p_dir ps = Some dir" and "p_split ps = Some sp"
    and "text_file fs (manifest_path dir sp) = Some content"
    and "1 \<le> length (splitlines content)"
  shows "indices L = splitlines content \<and> idx L = 0 \<and>
    (\<forall>La tp ga Lb tpb gb.
       \<not> random La \<and> forward lib La tp ga = (None, Lb, tpb, gb) \<longrightarrow>
       idx Lb = (if idx La + 1 = int (length (indices La)) then 0 else idx La + 1)) \<and>
    (\<forall>La tp Lb tpb ga.
       \<not> random La \<and> reshape v fs La tp = (None, Lb, tpb) \<longrightarrow>
       (\<exists>Lc tpc. forward lib Lb tpb ga = (None, Lc, tpc, ga) \<and>
          idx Lc = (if idx La + 1 = int (length (indices La)) then 0 else idx La + 1))) \<and>
    (\<forall>La d l t0 t1 rest ga.
       \<not> random La \<and> data La = Some d \<and> label La = Some l \<and>
       broadcastable (shape d) (bshape t0) \<and> broadcastable (label_shape l) (bshape t1) \<longrightarrow>
       (\<exists>Lc tpc. forward lib La (t0 # t1 # rest) ga = (None, Lc, tpc, ga) \<and>
          idx Lc = (if idx La + 1 = int (length (indices La)) then 0 else idx La + 1))) \<and>
    (\<forall>n tp tr L' tp' g'.
       run v lib fs n L tp g0 = Inr (tr, L', tp', g') \<longrightarrow>
       tr = map (\<lambda>k. int (k mod length (splitlines content))) [0..<n] \<and>
       idx L' = int (n mod length (splitlines content))) \<and>
    ((\<forall>name\<in>set (splitlines content). loadable v fs L name) \<longrightarrow>
       (\<forall>n. \<exists>L' tp'.
          run v lib fs n L tops g0 =
            Inr (map (\<lambda>k. int (k mod length (splitlines content))) [0..<n], L', tp', g0) \<and>
          idx L' = int (n mod length (splitlines content))))"
proof -
  from setup_layer_Inr [OF assms(1)] assms(3-5) obtain mn bin rnd where
    L: "L = \<lparr>maindir = dir, split = sp, mean = mn, random = rnd, seed = p_seed ps,
          binarize = bin, indices = splitlines content, idx = idx L,
          data = None, label = None\<rparr>" and len: "length tops = 2"
    by auto
  have "indices L = indices \<lparr>maindir = dir, split = sp, mean = mn, random = rnd,
      seed = p_seed ps, binarize = bin, indices = splitlines content, idx = idx L,
      data = None, label = None\<rparr>"
    using L by simp
  then have ix: "indices L = splitlines content" by simp
  have z: "idx L = 0"
    using setup_layer_cursor [OF assms(1)] assms(2) by simp
  have fw: "\<forall>La tp ga Lb tpb gb.
       \<not> random La \<and> forward lib La tp ga = (None, Lb, tpb, gb) \<longrightarrow>
       idx Lb = (if idx La + 1 = int (length (indices La)) then 0 else idx La + 1)"
  proof (intro allI impI)
    fix La tp ga Lb tpb gb
    assume "\<not> random La \<and> forward lib La tp ga = (None, Lb, tpb, gb)"
    then show "idx Lb = (if idx La + 1 = int (length (indices La)) then 0 else idx La + 1)"
      using forward_sequential [of La lib tp ga Lb tpb gb] by simp
  qed
  have rf: "\<forall>La tp Lb tpb ga.
       \<not> random La \<and> reshape v fs La tp = (None, Lb, tpb) \<longrightarrow>
       (\<exists>Lc tpc. forward lib Lb tpb ga = (None, Lc, tpc, ga) \<and>
          idx Lc = (if idx La + 1 = int (length (indices La)) then 0 else idx La + 1))"
  proof (intro allI impI)
    fix La tp Lb tpb ga
    assume a: "\<not> random La \<and> reshape v fs La tp = (None, Lb, tpb)"
    then have rs: "reshape v fs La tp = (None, Lb, tpb)" by simp
    note f = reshape_frame [OF rs]
    from forward_after_reshape [OF rs, of lib ga] obtain Lc tpc gc where
      fc: "forward lib Lb tpb ga = (None, Lc, tpc, gc)" by blast
    have nb: "\<not> random Lb" using a f by simp
    from forward_sequential [OF nb fc] f
    have "gc = ga" and "idx Lc = (if idx La + 1 = int (length (indices La)) then 0 else idx La + 1)"
      by simp_all
    with fc show "\<exists>Lc tpc. forward lib Lb tpb ga = (None, Lc, tpc, ga) \<and>
          idx Lc = (if idx La + 1 = int (length (indices La)) then 0 else idx La + 1)"
      by blast
  qed
  have fr: "\<forall>La d l t0 t1 rest ga.
       \<not> random La \<and> data La = Some d \<and> label La = Some l \<and>
       broadcastable (shape d) (bshape t0) \<and> broadcastable (label_shape l) (bshape t1) \<longrightarrow>
       (\<exists>Lc tpc. forward lib La (t0 # t1 # rest) ga = (None, Lc, tpc, ga) \<and>
          idx Lc = (if idx La + 1 = int (length (indices La)) then 0 else idx La + 1))"
    using forward_returns [of _ _ _ _ _ lib] by blast
  have rn: "tr = map (\<lambda>k. int (k mod length (splitlines content))) [0..<n] \<and>
       idx L' = int (n mod length (splitlines content))"
    if "run v lib fs n L tp g0 = Inr (tr, L', tp', g')" for n tp tr L' tp' g'
    using run_sequential [OF that assms(2)] z ix assms(6) by (simp add: zmod_int)
  have tot: "\<exists>L' tp'.
          run v lib fs n L tops g0 =
            Inr (map (\<lambda>k. int (k mod length (splitlines content))) [0..<n], L', tp', g0) \<and>
          idx L' = int (n mod length (splitlines content))"
    if ld: "\<forall>name\<in>set (splitlines content). loadable v fs L name" for n
  proof -
    have pos: "0 \<le> idx L" "idx L < int (length (indices L))"
      using z ix assms(6) by (cases "splitlines content"; simp)+
    have ld': "\<forall>name\<in>set (indices L). loadable v fs L name"
      using ld ix by simp
    have "\<exists>r. run v lib fs n L tops g0 = Inr r"
      using assms(2) by (intro run_returns pos ld' len) simp
    then obtain tr L' tp' g' where r: "run v lib fs n L tops g0 = Inr (tr, L', tp', g')"
      by (metis prod.exhaust)
    from run_sequential [OF r assms(2)] z have "g' = g0" by simp
    with rn [OF r] r show ?thesis by blast
  qed
  have rn': "\<forall>n tp tr L' tp' g'.
       run v lib fs n L tp g0 = Inr (tr, L', tp', g') \<longrightarrow>
       tr = map (\<lambda>k. int (k mod length (splitlines content))) [0..<n] \<and>
       idx L' = int (n mod length (splitlines content))"
    using rn by (intro allI impI)
  have tot': "(\<forall>name\<in>set (splitlines content). loadable v fs L name) \<longrightarrow>
       (\<forall>n. \<exists>L' tp'.
          run v lib fs n L tops g0 =
            Inr (map (\<lambda>k. int (k mod length (splitlines content))) [0..<n], L', tp', g0) \<and>
          idx L' = int (n mod length (splitlines content)))"
    using tot by (intro allI impI)
  show ?thesis
    by (intro conjI ix z fw rf fr rn' tot')
qed

text \<open>The sample inputs, evaluated.\<close>

lemma val_setup:
  "setup_layer GDIDataLayerImp demo_lib 0 demo_fs (demo_params ''val'') [] [blob0, blob0] 0 =
     Inr (val_layer, 0)"
  by (simp add: setup_layer_def getitem_def get_default_def demo_params_def demo_fs_def
      val_layer_def manifest_path_def splitlines_def is_linebreak_def)

lemmas demo_eval = reshape_def forward_def load_image_def load_label_def list_get_def
  demo_fs_def image_path_def label_path_def sub_mean_def transpose_201_def
  of_list3_def of_list2_def label_values_def to_float_def broadcastable_def blob0_def
  randint_def demo_lib_def Let_def

lemma val_run:
  "\<exists>r. run GDIDataLayerImp demo_lib demo_fs (Suc (Suc (Suc 0))) val_layer [blob0, blob0] 0 = Inr ([0,1,0], r)"
  by (simp add: val_layer_def demo_eval)

lemma val_loadable:
  "\<forall>name\<in>set (splitlines [CHR ''a'', CHR 0x0A, CHR ''b'', CHR 0x0A]).
     loadable GDIDataLayerImp demo_fs val_layer name"
  by (simp add: splitlines_def is_linebreak_def loadable_def val_layer_def demo_eval)

theorem sequential_cursor_witness:
  "setup_layer GDIDataLayerImp demo_lib 0 demo_fs (demo_params ''val'') [] [blob0, blob0] 0 =
     Inr (val_layer, 0) \<and>
   \<not> random val_layer \<and>
   text_file demo_fs (manifest_path ''d'' ''val'') = Some [CHR ''a'', CHR 0x0A, CHR ''b'', CHR 0x0A] \<and>
   length (splitlines [CHR ''a'', CHR 0x0A, CHR ''b'', CHR 0x0A]) = 2 \<and>
   list_all (loadable GDIDataLayerImp demo_fs val_layer)
     (splitlines [CHR ''a'', CHR 0x0A, CHR ''b'', CHR 0x0A]) \<and>
   indices val_layer = splitlines [CHR ''a'', CHR 0x0A, CHR ''b'', CHR 0x0A] \<and>
   idx val_layer = 0 \<and>
   (\<exists>L' tp'. run GDIDataLayerImp demo_lib demo_fs 3 val_layer [blob0, blob0] 0 =
      Inr ([0, 1, 0], L', tp', 0) \<and> idx L' = 1)"
proof -
  have nr: "\<not> random val_layer"
    by (simp add: val_layer_def)
  have pd: "p_dir (demo_params ''val'') = Some ''d''"
    and sp: "p_split (demo_params ''val'') = Some ''val''"
    by (simp_all add: demo_params_def)
  have mf: "text_file demo_fs (manifest_path ''d'' ''val'') =
      Some [CHR ''a'', CHR 0x0A, CHR ''b'', CHR 0x0A]"
    by (simp add: demo_fs_def manifest_path_def)
  have n2: "length (splitlines [CHR ''a'', CHR 0x0A, CHR ''b'', CHR 0x0A]) = 2"
    by (simp add: splitlines_def is_linebreak_def)
  have ne: "1 \<le> length (splitlines [CHR ''a'', CHR 0x0A, CHR ''b'', CHR 0x0A])"
    by (simp add: n2)
  note th = sequential_cursor [OF val_setup nr pd sp mf ne]
  have ix: "indices val_layer = splitlines [CHR ''a'', CHR 0x0A, CHR ''b'', CHR 0x0A]"
    and z: "idx val_layer = 0"
    using th by simp_all
  have "\<forall>n. \<exists>L' tp'.
      run GDIDataLayerImp demo_lib demo_fs n val_layer [blob0, blob0] 0 =
        Inr (map (\<lambda>k. int (k mod length (splitlines [CHR ''a'', CHR 0x0A, CHR ''b'', CHR 0x0A])))
               [0..<n], L', tp', 0) \<and>
      idx L' = int (n mod length (splitlines [CHR ''a'', CHR 0x0A, CHR ''b'', CHR 0x0A]))"
    using th val_loadable by blast
  then have "\<exists>L' tp'.
      run GDIDataLayerImp demo_lib demo_fs 3 val_layer [blob0, blob0] 0 =
        Inr (map (\<lambda>k. int (k mod 2)) [0..<3], L', tp', 0) \<and> idx L' = int (3 mod 2)"
    unfolding n2 by (rule spec)
  moreover have "map (\<lambda>k. int (k mod 2)) [0..<3] = [0, 1, 0]"
    by (simp add: upt_rec)
  ultimately have rn: "\<exists>L' tp'.
      run GDIDataLayerImp demo_lib demo_fs 3 val_layer [blob0, blob0] 0 =
        Inr ([0, 1, 0], L', tp', 0) \<and> idx L' = 1"
    by simp
  have la: "list_all (loadable GDIDataLayerImp demo_fs val_layer)
     (splitlines [CHR ''a'', CHR 0x0A, CHR ''b'', CHR 0x0A])"
    using val_loadable by (simp only: list_all_iff)
  show ?thesis
    using val_setup nr mf n2 la ix z rn by blast
qed

text \<open>
  C2. When the split string does not contain \<^verbatim>\<open>train\<close>, whatever the parameters say
  about \<^verbatim>\<open>randomize\<close>, \<open>setup\<close> leaves \<open>random\<close> false and the cursor at 0 and makes
  no use of the generator; every \<open>forward\<close> of an object that does not randomize moves
  the cursor sequentially, keeps \<open>random\<close> false and draws nothing, so the steps of the
  host's loop load from positions 0, 1, ... in turn.
\<close>

theorem eval_split_not_random:
  assumes "p_split ps = Some sp" and "\<not> str_contains ''train'' sp"
    and "setup_layer v lib entropy fs ps bottoms tops g = Inr (L, g0)"
  shows "random L = False \<and> idx L = 0 \<and> g0 = g \<and>
    (\<forall>La tp ga Lb tpb gb.
       \<not> random La \<and> forward lib La tp ga = (None, Lb, tpb, gb) \<longrightarrow>
       idx Lb = (if idx La + 1 = int (length (indices La)) then 0 else idx La + 1) \<and>
       \<not> random Lb \<and> gb = ga) \<and>
    (\<forall>n tp tr L' tp' g'.
       run v lib fs n L tp g0 = Inr (tr, L', tp', g') \<longrightarrow>
       tr = map (\<lambda>k. int (k mod length (indices L))) [0..<n] \<and> \<not> random L' \<and> g' = g)"
proof -
  note c = setup_layer_cursor [OF assms(3)]
  from c assms(1,2) have nr: "\<not> random L" by auto
  with c have z: "idx L = 0" and g0: "g0 = g" by simp_all
  have fw: "\<forall>La tp ga Lb tpb gb.
       \<not> random La \<and> forward lib La tp ga = (None, Lb, tpb, gb) \<longrightarrow>
       idx Lb = (if idx La + 1 = int (length (indices La)) then 0 else idx La + 1) \<and>
       \<not> random Lb \<and> gb = ga"
  proof (intro allI impI)
    fix La tp ga Lb tpb gb
    assume "\<not> random La \<and> forward lib La tp ga = (None, Lb, tpb, gb)"
    then show "idx Lb = (if idx La + 1 = int (length (indices La)) then 0 else idx La + 1) \<and>
       \<not> random Lb \<and> gb = ga"
      using forward_sequential [of La lib tp ga Lb tpb gb] by simp
  qed
  have rn: "tr = map (\<lambda>k. int (k mod length (indices L))) [0..<n] \<and> \<not> random L' \<and> g' = g"
    if "run v lib fs n L tp g0 = Inr (tr, L', tp', g')" for n tp tr L' tp' g'
    using run_sequential [OF that nr] z g0 by (simp add: zmod_int)
  from nr z g0 fw rn show ?thesis by blast
qed

lemma val_setup_randomize:
  "setup_layer GDIDataLayerImp demo_lib 0 demo_fs val_params [] [blob0, blob0] 0 =
     Inr (val_layer, 0)"
  by (simp add: setup_layer_def getitem_def get_default_def val_params_def demo_fs_def
      val_layer_def manifest_path_def splitlines_def is_linebreak_def)

theorem eval_split_not_random_witness:
  "p_split val_params = Some ''val'' \<and> p_randomize val_params = Some True \<and>
   str_contains ''train'' ''val'' = False \<and>
   setup_layer GDIDataLayerImp demo_lib 0 demo_fs val_params [] [blob0, blob0] 0 =
     Inr (val_layer, 0) \<and>
   random val_layer = False \<and> idx val_layer = 0 \<and>
   (\<exists>r. run GDIDataLayerImp demo_lib demo_fs (Suc (Suc (Suc 0))) val_layer [blob0, blob0] 0 =
      Inr (map (\<lambda>k. int (k mod length (indices val_layer))) [0..<Suc (Suc (Suc 0))], r))"
proof -
  have sp: "p_split val_params = Some ''val''" and rz: "p_randomize val_params = Some True"
    by (simp_all add: val_params_def)
  have nt: "\<not> str_contains ''train'' ''val''" by simp
  note th = eval_split_not_random [OF sp nt val_setup_randomize]
  from val_run obtain r where
    r: "run GDIDataLayerImp demo_lib demo_fs (Suc (Suc (Suc 0))) val_layer [blob0, blob0] 0 =
      Inr ([0, 1, 0], r)"
    by blast
  obtain L' tp' g' where r': "r = (L', tp', g')"
    by (cases r) auto
  have a: "random val_layer = False" "idx val_layer = 0"
    using th by simp_all
  have tr: "[0, 1, 0] = map (\<lambda>k. int (k mod length (indices val_layer))) [0..<Suc (Suc (Suc 0))]"
    using th r r' by blast
  have r2: "\<exists>r. run GDIDataLayerImp demo_lib demo_fs (Suc (Suc (Suc 0))) val_layer
      [blob0, blob0] 0 =
      Inr (map (\<lambda>k. int (k mod length (indices val_layer))) [0..<Suc (Suc (Suc 0))], r)"
    using r by (simp only: tr [symmetric]) blast
  show ?thesis
    using sp rz nt val_setup_randomize a r2 by blast
qed

section \<open>Random mode\<close>

lemma run_random_range:
  assumes "lib_ok lib"
    and "run v lib fs n L tops g = Inr (tr, L', tops', g')"
    and "random L" and "0 \<le> idx L" and "idx L \<le> int (length (indices L)) - 1"
  shows "(\<forall>p\<in>set tr. 0 \<le> p \<and> p \<le> int (length (indices L)) - 1) \<and>
         0 \<le> idx L' \<and> idx L' \<le> int (length (indices L)) - 1"
  using assms(2-5)
proof (induction n arbitrary: L tops g tr)
  case 0
  then show ?case by simp
next
  case (Suc n)
  from Suc.prems(1) obtain L1 tops1 L2 tops2 g2 tr' where
    rs: "reshape v fs L tops = (None, L1, tops1)" and
    fw: "forward lib L1 tops1 g = (None, L2, tops2, g2)" and
    rn: "run v lib fs n L2 tops2 g2 = Inr (tr', L', tops', g')" and
    tr: "tr = idx L1 # tr'"
    by (rule run_Suc_Inr)
  from reshape_frame [OF rs]
  have f1: "idx L1 = idx L" "indices L1 = indices L" "random L1 = random L"
    by simp_all
  from forward_random [OF _ fw] f1 Suc.prems(2)
  have dr: "randint lib g 0 (int (length (indices L)) - 1) = Inr (idx L2, g2)"
    and r2: "random L2" and i2: "indices L2 = indices L"
    by simp_all
  from randint_range [OF assms(1) dr]
  have b2: "0 \<le> idx L2" "idx L2 \<le> int (length (indices L2)) - 1"
    using i2 by simp_all
  from Suc.IH [OF rn r2 b2] i2
  have "(\<forall>p\<in>set tr'. 0 \<le> p \<and> p \<le> int (length (indices L)) - 1) \<and>
         0 \<le> idx L' \<and> idx L' \<le> int (length (indices L)) - 1"
    by simp
  with tr f1 Suc.prems(3,4) show ?case by simp
qed

lemma setup_layer_seeded:
  assumes "p_seed ps = Some s"
    and "setup_layer v lib e1 fs ps bottoms tops g1 = Inr (L, h)" and "random L"
  shows "setup_layer v lib e2 fs ps bottoms tops g2 = Inr (L, h)"
proof -
  note c = setup_layer_cursor [OF assms(2)]
  from c assms(3) have act: "str_contains ''train'' (split L)" "get_default (p_randomize ps) True"
    and sp: "p_split ps = Some (split L)"
    by simp_all
  show ?thesis
    using assms(2) act sp assms(1)
    unfolding setup_layer_def getitem_def Let_def random_seed_def
    by (auto split: option.splits sum.splits if_splits prod.splits)
qed

text \<open>
  C3. In random mode with a seed \<open>s\<close>, a run of the iterator over a manifest of \<open>N\<close>
  lines does not depend on the state the generator was in, nor on the operating system's
  entropy: \<open>setup\<close> reseeds with \<open>s\<close> and draws the first position, so two runs on the
  same files and parameters give the same object, the same generator state and the same
  sequence of positions. Every \<open>forward\<close> that follows a \<open>reshape\<close> returns and sets
  the cursor to one draw. With a generator that honours its contract, the position
  \<open>setup\<close> draws, every position a step loads from and the position drawn last all lie
  in \<open>[0, N - 1]\<close>, and the run returns when every sample of the manifest is loadable.
\<close>

theorem seeded_random_deterministic:
  assumes "p_seed ps = Some s"
    and "setup_layer v lib e1 fs ps bottoms tops g1 = Inr (L, h)" and "random L"
    and "p_dir ps = Some dir" and "p_split ps = Some sp"
    and "text_file fs (manifest_path dir sp) = Some content"
  shows "session v lib e2 fs ps bottoms tops g2 n = session v lib e1 fs ps bottoms tops g1 n \<and>
     setup_layer v lib e2 fs ps bottoms tops g2 = Inr (L, h) \<and>
     indices L = splitlines content \<and>
     randint lib (seed_with lib s) 0 (int (length (splitlines content)) - 1) = Inr (idx L, h) \<and>
     (\<forall>La tp Lb tpb ga.
        random La \<and> reshape v fs La tp = (None, Lb, tpb) \<longrightarrow>
        (\<exists>Lc tpc gc. forward lib Lb tpb ga = (None, Lc, tpc, gc) \<and>
           randint lib ga 0 (int (length (indices La)) - 1) = Inr (idx Lc, gc))) \<and>
     (lib_ok lib \<longrightarrow>
        0 \<le> idx L \<and> idx L \<le> int (length (splitlines content)) - 1 \<and>
        (\<forall>tr L' tp' h'. session v lib e1 fs ps bottoms tops g1 n = Inr (tr, L', tp', h') \<longrightarrow>
           (\<forall>p\<in>set tr. 0 \<le> p \<and> p \<le> int (length (splitlines content)) - 1) \<and>
           0 \<le> idx L' \<and> idx L' \<le> int (length (splitlines content)) - 1) \<and>
        ((\<forall>name\<in>set (splitlines content). loadable v fs L name) \<longrightarrow>
           (\<exists>r. session v lib e1 fs ps bottoms tops g1 n = Inr r)))"
proof -
  from setup_layer_Inr [OF assms(2)] assms(4-6) obtain mn bin rnd where
    L: "L = \<lparr>maindir = dir, split = sp, mean = mn, random = rnd, seed = p_seed ps,
          binarize = bin, indices = splitlines content, idx = idx L,
          data = None, label = None\<rparr>" and len: "length tops = 2"
    by auto
  have "indices L = indices \<lparr>maindir = dir, split = sp, mean = mn, random = rnd,
      seed = p_seed ps, binarize = bin, indices = splitlines content, idx = idx L,
      data = None, label = None\<rparr>"
    using L by simp
  then have ix: "indices L = splitlines content" by simp
  have s2: "setup_layer v lib e2 fs ps bottoms tops g2 = Inr (L, h)"
    using assms(1-3) by (rule setup_layer_seeded)
  have eq: "session v lib e2 fs ps bottoms tops g2 n = session v lib e1 fs ps bottoms tops g1 n"
    by (simp add: session_def s2 assms(2))
  have dr: "randint lib (seed_with lib s) 0 (int (length (splitlines content)) - 1) =
      Inr (idx L, h)"
    using setup_layer_cursor [OF assms(2)] assms(1,3) ix by (simp add: random_seed_def)
  have fw: "\<forall>La tp Lb tpb ga.
        random La \<and> reshape v fs La tp = (None, Lb, tpb) \<longrightarrow>
        (\<exists>Lc tpc gc. forward lib Lb tpb ga = (None, Lc, tpc, gc) \<and>
           randint lib ga 0 (int (length (indices La)) - 1) = Inr (idx Lc, gc))"
  proof (intro allI impI)
    fix La tp Lb tpb ga
    assume a: "random La \<and> reshape v fs La tp = (None, Lb, tpb)"
    then have rs: "reshape v fs La tp = (None, Lb, tpb)" by simp
    note f = reshape_frame [OF rs]
    from forward_after_reshape [OF rs, of lib ga] obtain Lc tpc gc where
      fc: "forward lib Lb tpb ga = (None, Lc, tpc, gc)" by blast
    have rb: "random Lb" using a f by simp
    from forward_random [OF rb fc] f
    have "randint lib ga 0 (int (length (indices La)) - 1) = Inr (idx Lc, gc)"
      by simp
    with fc show "\<exists>Lc tpc gc. forward lib Lb tpb ga = (None, Lc, tpc, gc) \<and>
           randint lib ga 0 (int (length (indices La)) - 1) = Inr (idx Lc, gc)"
      by blast
  qed
  have rg: "0 \<le> idx L \<and> idx L \<le> int (length (splitlines content)) - 1 \<and>
        (\<forall>tr L' tp' h'. session v lib e1 fs ps bottoms tops g1 n = Inr (tr, L', tp', h') \<longrightarrow>
           (\<forall>p\<in>set tr. 0 \<le> p \<and> p \<le> int (length (splitlines content)) - 1) \<and>
           0 \<le> idx L' \<and> idx L' \<le> int (length (splitlines content)) - 1) \<and>
        ((\<forall>name\<in>set (splitlines content). loadable v fs L name) \<longrightarrow>
           (\<exists>r. session v lib e1 fs ps bottoms tops g1 n = Inr r))"
    if ok: "lib_ok lib"
  proof -
    from randint_range [OF ok dr]
    have b: "0 \<le> idx L" "idx L \<le> int (length (indices L)) - 1"
      using ix by simp_all
    have tr: "(\<forall>p\<in>set tr. 0 \<le> p \<and> p \<le> int (length (splitlines content)) - 1) \<and>
           0 \<le> idx L' \<and> idx L' \<le> int (length (splitlines content)) - 1"
      if "session v lib e1 fs ps bottoms tops g1 n = Inr (tr, L', tp', h')" for tr L' tp' h'
      using run_random_range [OF ok _ assms(3) b, of v fs n tops h tr L' tp' h'] that ix
      by (simp add: session_def assms(2))
    have tot: "\<exists>r. session v lib e1 fs ps bottoms tops g1 n = Inr r"
      if ld: "\<forall>name\<in>set (splitlines content). loadable v fs L name"
    proof -
      have ld': "\<forall>name\<in>set (indices L). loadable v fs L name"
        using ld ix by simp
      have lt: "idx L < int (length (indices L))" using b by simp
      have "\<exists>r. run v lib fs n L tops h = Inr r"
        using ok by (intro run_returns b(1) lt ld' len) simp
      then show ?thesis
        by (simp add: session_def assms(2))
    qed
    from b ix have b': "0 \<le> idx L \<and> idx L \<le> int (length (splitlines content)) - 1"
      by simp
    have tr': "\<forall>tr L' tp' h'. session v lib e1 fs ps bottoms tops g1 n = Inr (tr, L', tp', h') \<longrightarrow>
           (\<forall>p\<in>set tr. 0 \<le> p \<and> p \<le> int (length (splitlines content)) - 1) \<and>
           0 \<le> idx L' \<and> idx L' \<le> int (length (splitlines content)) - 1"
      using tr by (intro allI impI)
    have tot': "(\<forall>name\<in>set (splitlines content). loadable v fs L name) \<longrightarrow>
           (\<exists>r. session v lib e1 fs ps bottoms tops g1 n = Inr r)"
      using tot by (intro impI)
    show ?thesis
      by (intro conjI b' [THEN conjunct1] b' [THEN conjunct2] tr' tot')
  qed
  have rg': "lib_ok lib \<longrightarrow>
        0 \<le> idx L \<and> idx L \<le> int (length (splitlines content)) - 1 \<and>
        (\<forall>tr L' tp' h'. session v lib e1 fs ps bottoms tops g1 n = Inr (tr, L', tp', h') \<longrightarrow>
           (\<forall>p\<in>set tr. 0 \<le> p \<and> p \<le> int (length (splitlines content)) - 1) \<and>
           0 \<le> idx L' \<and> idx L' \<le> int (length (splitlines content)) - 1) \<and>
        ((\<forall>name\<in>set (splitlines content). loadable v fs L name) \<longrightarrow>
           (\<exists>r. session v lib e1 fs ps bottoms tops g1 n = Inr r))"
    using rg by (intro impI)
  show ?thesis
    by (intro conjI eq s2 ix dr fw rg')
qed

lemma demo_lib_ok: "lib_ok demo_lib"
  by (simp add: lib_ok_def demo_lib_def)

lemma train_setup:
  "setup_layer GDIDataLayerImp demo_lib e demo_fs (demo_params ''train'') [] [blob0, blob0] g =
     Inr (train_layer, 22)"
  by (simp add: setup_layer_def getitem_def get_default_def demo_params_def demo_fs_def
      train_layer_def manifest_path_def splitlines_def is_linebreak_def randint_def
      random_seed_def demo_lib_def)

lemma train_run:
  "\<exists>r. run GDIDataLayerImp demo_lib demo_fs (Suc (Suc 0)) train_layer [blob0, blob0] 22 = Inr ([1, 0], r)"
  by (simp add: train_layer_def demo_eval)

lemma train_loadable:
  "\<forall>name\<in>set (splitlines [CHR ''a'', CHR 0x0A, CHR ''b'', CHR 0x0A]).
     loadable GDIDataLayerImp demo_fs train_layer name"
  by (simp add: splitlines_def is_linebreak_def loadable_def train_layer_def demo_eval)

theorem seeded_random_deterministic_witness:
  "p_seed (demo_params ''train'') = Some 7 \<and>
   setup_layer GDIDataLayerImp demo_lib 0 demo_fs (demo_params ''train'') [] [blob0, blob0] 0 =
     Inr (train_layer, 22) \<and>
   random train_layer \<and> lib_ok demo_lib \<and>
   text_file demo_fs (manifest_path ''d'' ''train'') =
     Some [CHR ''a'', CHR 0x0A, CHR ''b'', CHR 0x0A] \<and>
   list_all (loadable GDIDataLayerImp demo_fs train_layer)
     (splitlines [CHR ''a'', CHR 0x0A, CHR ''b'', CHR 0x0A]) \<and>
   session GDIDataLayerImp demo_lib 5 demo_fs (demo_params ''train'') [] [blob0, blob0] 9
     (Suc (Suc 0)) =
   session GDIDataLayerImp demo_lib 0 demo_fs (demo_params ''train'') [] [blob0, blob0] 0
     (Suc (Suc 0)) \<and>
   (\<exists>r. session GDIDataLayerImp demo_lib 0 demo_fs (demo_params ''train'') [] [blob0, blob0] 0
      (Suc (Suc 0)) = Inr ([1, 0], r)) \<and>
   0 \<le> idx train_layer \<and>
   idx train_layer \<le> int (length (splitlines [CHR ''a'', CHR 0x0A, CHR ''b'', CHR 0x0A])) - 1"
proof -
  have sd: "p_seed (demo_params ''train'') = Some 7"
    and pd: "p_dir (demo_params ''train'') = Some ''d''"
    and sp: "p_split (demo_params ''train'') = Some ''train''"
    by (simp_all add: demo_params_def)
  have rt: "random train_layer"
    by (simp add: train_layer_def)
  have mf: "text_file demo_fs (manifest_path ''d'' ''train'') =
      Some [CHR ''a'', CHR 0x0A, CHR ''b'', CHR 0x0A]"
    by (simp add: demo_fs_def manifest_path_def)
  note th = seeded_random_deterministic [OF sd train_setup [of 0 0] rt pd sp mf,
      of 5 9 "Suc (Suc 0)"]
  have eq: "session GDIDataLayerImp demo_lib 5 demo_fs (demo_params ''train'') [] [blob0, blob0] 9
     (Suc (Suc 0)) =
   session GDIDataLayerImp demo_lib 0 demo_fs (demo_params ''train'') [] [blob0, blob0] 0
     (Suc (Suc 0))"
    using th by (rule conjunct1)
  have rg: "0 \<le> idx train_layer \<and>
      idx train_layer \<le> int (length (splitlines [CHR ''a'', CHR 0x0A, CHR ''b'', CHR 0x0A])) - 1"
    using th demo_lib_ok by blast
  have "\<exists>r. session GDIDataLayerImp demo_lib 0 demo_fs (demo_params ''train'') []
      [blob0, blob0] 0 (Suc (Suc 0)) = Inr r"
    using th demo_lib_ok train_loadable by blast
  have ss: "\<exists>r. session GDIDataLayerImp demo_lib 0 demo_fs (demo_params ''train'') []
      [blob0, blob0] 0 (Suc (Suc 0)) = Inr ([1, 0], r)"
    using train_run by (simp only: session_def train_setup sum.case prod.case)
  have la: "list_all (loadable GDIDataLayerImp demo_fs train_layer)
     (splitlines [CHR ''a'', CHR 0x0A, CHR ''b'', CHR 0x0A])"
    using train_loadable by (simp only: list_all_iff)
  show ?thesis
    by (intro conjI sd train_setup [of 0 0] rt demo_lib_ok mf la eq ss
        rg [THEN conjunct1] rg [THEN conjunct2])
qed

section \<open>Reshape\<close>

text \<open>Calling \<open>reshape\<close> again changes nothing: same outcome, same object, same blobs.\<close>

lemma load_image_upd:
  "load_image v fs (L\<lparr>data := x\<rparr>) name = load_image v fs L name"
  "load_image v fs (L\<lparr>label := y\<rparr>) name = load_image v fs L name"
  by (rule load_image_fields; simp)+

lemma load_label_upd:
  "load_label v fs (L\<lparr>data := x\<rparr>) name = load_label v fs L name"
  "load_label v fs (L\<lparr>label := y\<rparr>) name = load_label v fs L name"
  by (rule load_label_fields; simp)+

lemma reshape_idem:
  assumes "reshape v fs L tops = (r, L1, tops1)"
  shows "reshape v fs L1 tops1 = (r, L1, tops1)"
  using assms unfolding reshape_def Let_def
  by (auto simp: load_image_upd load_label_upd split: sum.splits list.splits)

lemma reshape_funpow:
  "((\<lambda>(r, M, tp). reshape v fs M tp) ^^ n) (reshape v fs L tops) = reshape v fs L tops"
proof (induction n)
  case 0
  show ?case by simp
next
  case (Suc n)
  obtain r L1 tops1 where e: "reshape v fs L tops = (r, L1, tops1)"
    by (cases "reshape v fs L tops") auto
  from reshape_idem [OF e] Suc e show ?case by simp
qed

text \<open>
  C10. \<open>reshape\<close> never modifies the cursor, whether it returns or raises, and neither
  does \<open>backward\<close>; so however often \<open>reshape\<close> is called in a row on the same files,
  every call resolves the same entry of the index list and leaves the same outcome,
  object and blobs as the first call. When it returns, \<open>data\<close> and \<open>label\<close> are what
  \<open>load_image\<close> and \<open>load_label\<close> give for the entry at the cursor.
\<close>

theorem reshape_keeps_cursor:
  "idx (fst (snd (reshape v fs L tops))) = idx L \<and>
   indices (fst (snd (reshape v fs L tops))) = indices L \<and>
   idx (backward L tops pd bottoms) = idx L \<and>
   ((\<lambda>(r, M, tp). reshape v fs M tp) ^^ n) (reshape v fs L tops) = reshape v fs L tops \<and>
   (\<forall>L1 tops1. reshape v fs L tops = (None, L1, tops1) \<longrightarrow>
      (\<exists>name d l. list_get (indices L) (idx L) = Inr name \<and>
         load_image v fs L name = Inr d \<and> load_label v fs L name = Inr l \<and>
         data L1 = Some d \<and> label L1 = Some l))"
proof -
  obtain r L1 tops1 where e: "reshape v fs L tops = (r, L1, tops1)"
    by (cases "reshape v fs L tops") auto
  note f = reshape_frame [OF e]
  have a: "idx (fst (snd (reshape v fs L tops))) = idx L"
    and b: "indices (fst (snd (reshape v fs L tops))) = indices L"
    using f by (simp_all add: e)
  have c: "idx (backward L tops pd bottoms) = idx L"
    by (simp add: backward_def)
  have d: "\<forall>L1 tops1. reshape v fs L tops = (None, L1, tops1) \<longrightarrow>
      (\<exists>name d l. list_get (indices L) (idx L) = Inr name \<and>
         load_image v fs L name = Inr d \<and> load_label v fs L name = Inr l \<and>
         data L1 = Some d \<and> label L1 = Some l)"
  proof (intro allI impI)
    fix M tp
    assume "reshape v fs L tops = (None, M, tp)"
    from reshape_None [OF this] obtain name d l where
      "list_get (indices L) (idx L) = Inr name" "load_image v fs L name = Inr d"
      "load_label v fs (L\<lparr>data := Some d\<rparr>) name = Inr l"
      "M = L\<lparr>data := Some d, label := Some l\<rparr>"
      by blast
    then show "\<exists>name d l. list_get (indices L) (idx L) = Inr name \<and>
         load_image v fs L name = Inr d \<and> load_label v fs L name = Inr l \<and>
         data M = Some d \<and> label M = Some l"
      by (simp add: load_label_upd)
  qed
  show ?thesis
    by (intro conjI a b c reshape_funpow d)
qed

theorem reshape_keeps_cursor_witness:
  "idx (fst (snd (reshape GDIDataLayerImp demo_fs val_layer [blob0, blob0]))) = 0 \<and>
   (\<exists>L1 tops1 d l. reshape GDIDataLayerImp demo_fs val_layer [blob0, blob0] = (None, L1, tops1) \<and>
      list_get (indices val_layer) (idx val_layer) = Inr ''a'' \<and>
      load_image GDIDataLayerImp demo_fs val_layer ''a'' = Inr d \<and>
      load_label GDIDataLayerImp demo_fs val_layer ''a'' = Inr l \<and>
      data L1 = Some d \<and> label L1 = Some l)"
proof -
  note th = reshape_keeps_cursor [of GDIDataLayerImp demo_fs val_layer "[blob0, blob0]" "[]" "[]" 0]
  have z: "idx val_layer = 0" and g: "list_get (indices val_layer) (idx val_layer) = Inr ''a''"
    by (simp_all add: val_layer_def list_get_def)
  have "\<exists>L1 tops1. reshape GDIDataLayerImp demo_fs val_layer [blob0, blob0] = (None, L1, tops1)"
    using val_loadable z by (intro reshape_returns) (simp_all add: val_layer_def splitlines_def
        is_linebreak_def)
  then obtain L1 tops1 where
    r: "reshape GDIDataLayerImp demo_fs val_layer [blob0, blob0] = (None, L1, tops1)"
    by blast
  with th g obtain d l where
    "load_image GDIDataLayerImp demo_fs val_layer ''a'' = Inr d"
    "load_label GDIDataLayerImp demo_fs val_layer ''a'' = Inr l"
    "data L1 = Some d" "label L1 = Some l"
    by auto
  with r g th z show ?thesis by auto
qed

section \<open>Labels\<close>

lemma shape_map_ndarray: "shape (map_ndarray f a) = shape a"
  by (induction a rule: shape.induct) simp_all

lemma shape_row: "shape (Array (map Scalar r)) = [length r]"
  by (cases r) simp_all

lemma shape_of_list2:
  "rect2 H W a \<Longrightarrow> 1 \<le> H \<Longrightarrow> shape (of_list2 a) = [H, W]"
  by (cases a) (auto simp: rect2_def of_list2_def shape_row)

lemma shape_of_list3:
  "length t = C \<Longrightarrow> 1 \<le> C \<Longrightarrow> rect2 H W (hd t) \<Longrightarrow> 1 \<le> H \<Longrightarrow> shape (of_list3 t) = [C, H, W]"
  by (cases t) (auto simp: of_list3_def shape_of_list2)

lemma round3_near:
  assumes "\<bar>x * 1000 - of_int k\<bar> < 1 / 2"
  shows "round3 x = of_int k / 1000"
proof -
  have "of_int k \<le> x * 1000 + 1 / 2" and "x * 1000 + 1 / 2 < of_int k + 1"
    using assms unfolding abs_less_iff by linarith+
  then have "\<lfloor>x * 1000 + 1 / 2\<rfloor> = k"
    by (rule floor_unique)
  then show ?thesis by (simp add: round3_def)
qed

lemma round3_robust:
  assumes "\<bar>e\<bar> \<le> 1 / 1000000"
  shows "round3 (0 / 255 + e) = 0" and "round3 (170 / 255 + e) = 667 / 1000"
    and "round3 (200 / 255 + e) = 784 / 1000" and "round3 (255 / 255 + e) = 1"
proof -
  have b: "- (1 / 1000000) \<le> e" "e \<le> 1 / 1000000"
    using assms unfolding abs_le_iff by linarith+
  have "\<bar>(0 / 255 + e) * 1000 - of_int 0\<bar> < 1 / 2"
    unfolding abs_less_iff using b by simp
  from round3_near [OF this] show "round3 (0 / 255 + e) = 0" by simp
  have "\<bar>(170 / 255 + e) * 1000 - of_int 667\<bar> < 1 / 2"
    unfolding abs_less_iff using b by simp
  from round3_near [OF this] show "round3 (170 / 255 + e) = 667 / 1000" by simp
  have "\<bar>(200 / 255 + e) * 1000 - of_int 784\<bar> < 1 / 2"
    unfolding abs_less_iff using b by simp
  from round3_near [OF this] show "round3 (200 / 255 + e) = 784 / 1000" by simp
  have "\<bar>(255 / 255 + e) * 1000 - of_int 1000\<bar> < 1 / 2"
    unfolding abs_less_iff using b by simp
  from round3_near [OF this] show "round3 (255 / 255 + e) = 1" by simp
qed

text \<open>
  C5. For every array of 8-bit label values, \<open>load_label\<close> returns, under a new leading
  axis of extent 1, elementwise \<open>value > 255 * 2 / 3\<close> (which is \<open>value > 170\<close>) when it
  binarizes and elementwise \<open>value / 255\<close> otherwise. The values 0, 170, 200, 255 give
  False, False, True, True, and the quotients 0, 170/255, 200/255, 1, which round to
  0.0, 0.667, 0.784, 1.0; so does every number within a millionth of them, as the floats
  the source computes are.
\<close>

theorem label_values_elementwise:
  "label_values True lab = BoolArr (Array [map_ndarray (\<lambda>v. 170 < unat v) lab]) \<and>
   label_values False lab = FloatArr (Array [map_ndarray (\<lambda>v. of_nat (unat v) / 255) lab]) \<and>
   label_shape (label_values b lab) = 1 # shape lab \<and>
   (\<forall>pic. image_file fs (label_path v (maindir L) name) = Some pic \<longrightarrow>
      load_label v fs L name = Inr (label_values (binarize L) (picture_array pic))) \<and>
   label_values True (Array [Scalar 0, Scalar 170, Scalar 200, Scalar 255]) =
     BoolArr (Array [Array [Scalar False, Scalar False, Scalar True, Scalar True]]) \<and>
   label_values False (Array [Scalar 0, Scalar 170, Scalar 200, Scalar 255]) =
     FloatArr (Array [Array [Scalar 0, Scalar (170 / 255), Scalar (200 / 255), Scalar 1]]) \<and>
   (\<forall>e. \<bar>e\<bar> \<le> 1 / 1000000 \<longrightarrow>
      round3 (0 + e) = 0 \<and> round3 (170 / 255 + e) = 667 / 1000 \<and>
      round3 (200 / 255 + e) = 784 / 1000 \<and> round3 (1 + e) = 1)"
proof -
  have t: "label_values True lab = BoolArr (Array [map_ndarray (\<lambda>v. 170 < unat v) lab])"
    by (simp add: label_values_def to_float_def del: of_nat_unat)
  have f: "label_values False lab =
      FloatArr (Array [map_ndarray (\<lambda>v. of_nat (unat v) / 255) lab])"
    by (simp add: label_values_def to_float_def del: of_nat_unat)
  have s: "label_shape (label_values b lab) = 1 # shape lab"
    by (simp add: label_values_def shape_map_ndarray)
  have l: "\<forall>pic. image_file fs (label_path v (maindir L) name) = Some pic \<longrightarrow>
      load_label v fs L name = Inr (label_values (binarize L) (picture_array pic))"
    by (simp add: load_label_def)
  have xt: "label_values True (Array [Scalar 0, Scalar 170, Scalar 200, Scalar 255]) =
     BoolArr (Array [Array [Scalar False, Scalar False, Scalar True, Scalar True]])"
    by (simp add: label_values_def to_float_def)
  have xf: "label_values False (Array [Scalar 0, Scalar 170, Scalar 200, Scalar 255]) =
     FloatArr (Array [Array [Scalar 0, Scalar (170 / 255), Scalar (200 / 255), Scalar 1]])"
    by (simp add: label_values_def to_float_def)
  have r: "\<forall>e. \<bar>e\<bar> \<le> 1 / 1000000 \<longrightarrow>
      round3 (0 + e) = 0 \<and> round3 (170 / 255 + e) = 667 / 1000 \<and>
      round3 (200 / 255 + e) = 784 / 1000 \<and> round3 (1 + e) = 1"
    using round3_robust by simp
  show ?thesis
    by (intro conjI t f s l xt xf r)
qed

theorem label_values_elementwise_witness:
  "image_file demo_fs (label_path GDIDataLayerImp (maindir val_layer) ''a'') = Some (Gray [[200]]) \<and>
   load_label GDIDataLayerImp demo_fs val_layer ''a'' =
     Inr (BoolArr (Array [Array [Array [Scalar True]]])) \<and>
   round3 0 = 0 \<and> round3 (170 / 255) = 667 / 1000 \<and>
   round3 (200 / 255) = 784 / 1000 \<and> round3 1 = 1"
proof -
  note th = label_values_elementwise [of "of_list2 [[200]]" True demo_fs GDIDataLayerImp
      val_layer "''a''"]
  have p: "image_file demo_fs (label_path GDIDataLayerImp (maindir val_layer) ''a'') =
      Some (Gray [[200]])"
    by (simp add: demo_fs_def label_path_def val_layer_def)
  have "load_label GDIDataLayerImp demo_fs val_layer ''a'' =
      Inr (label_values (binarize val_layer) (picture_array (Gray [[200]])))"
    using th p by blast
  moreover have "label_values (binarize val_layer) (picture_array (Gray [[200]])) =
      BoolArr (Array [Array [Array [Scalar True]]])"
    by (simp add: val_layer_def label_values_def of_list2_def to_float_def)
  ultimately have l: "load_label GDIDataLayerImp demo_fs val_layer ''a'' =
     Inr (BoolArr (Array [Array [Array [Scalar True]]]))"
    by simp
  have "\<bar>0 :: rat\<bar> \<le> 1 / 1000000 \<longrightarrow>
      round3 (0 + 0) = 0 \<and> round3 (170 / 255 + 0) = 667 / 1000 \<and>
      round3 (200 / 255 + 0) = 784 / 1000 \<and> round3 (1 + 0) = 1"
    using th by blast
  then have r: "round3 0 = 0 \<and> round3 (170 / 255) = 667 / 1000 \<and>
      round3 (200 / 255) = 784 / 1000 \<and> round3 1 = 1"
    by simp
  show ?thesis
    using p l r by blast
qed

section \<open>Images\<close>

lemma rect3_nth:
  assumes "rect3 H W C a"
  shows "length a = H" and "i < H \<Longrightarrow> length (a ! i) = W"
    and "i < H \<Longrightarrow> j < W \<Longrightarrow> length (a ! i ! j) = C"
  using assms by (auto simp: rect3_def list_all_length)

lemma rect2_nth:
  assumes "rect2 H W a"
  shows "length a = H" and "i < H \<Longrightarrow> length (a ! i) = W"
  using assms by (auto simp: rect2_def list_all_length)

lemma channels_rect3:
  assumes "rect3 H W C a" and "1 \<le> H" and "1 \<le> W"
  shows "channels a = C"
proof -
  from rect3_nth [OF assms(1)] assms(2,3)
  have l: "length a = H" "length (a ! 0) = W" "length (a ! 0 ! 0) = C" by simp_all
  with assms(2,3) obtain r rows where a: "a = r # rows" by (cases a) auto
  with l assms(3) obtain p ps where r: "r = p # ps" by (cases r) auto
  from a r l show ?thesis by simp
qed

lemma channels_map:
  assumes "\<And>p. length (f p) = length p"
  shows "channels (map (map f) a) = channels a"
  by (cases a rule: channels.cases) (simp_all add: assms)

lemma sub_mean_nth:
  assumes "length px = 3" and "length mn = 3" and "c < 3"
  shows "sub_mean (rev (map to_float px)) mn ! c = to_float (px ! (2 - c)) - mn ! c"
proof -
  have "rev (map to_float px) ! c = to_float (px ! (2 - c))"
    using assms(1,3) by (simp add: rev_nth)
  then show ?thesis
    using assms by (simp add: sub_mean_def)
qed

lemma load_image_rgb:
  assumes "image_file fs (image_path v (maindir L) name) = Some (Bands img)"
    and "rect3 H W 3 img" and "1 \<le> H" and "1 \<le> W" and "length (mean L) = 3"
  shows "load_image v fs L name = Inr (of_list3 (load_image_ref (mean L) H W img))"
proof -
  let ?in1 = "map (map rev) (map (map (map to_float)) img)"
  let ?A = "map (map (\<lambda>px. sub_mean px (mean L))) ?in1"
  have in1: "?in1 = map (map (\<lambda>p. rev (map to_float p))) img" by simp
  have ch: "channels ?in1 = 3"
    unfolding in1 using channels_map [of "\<lambda>p. rev (map to_float p)" img]
      channels_rect3 [OF assms(2-4)] by simp
  note r = rect3_nth [OF assms(2)]
  have plane: "map (map (\<lambda>px. px ! c)) ?A =
      map (\<lambda>i. map (\<lambda>j. to_float (img ! i ! j ! (2 - c)) - mean L ! c) [0..<W]) [0..<H]"
    if c: "c < 3" for c
  proof (rule nth_equalityI)
    show "length (map (map (\<lambda>px. px ! c)) ?A) =
        length (map (\<lambda>i. map (\<lambda>j. to_float (img ! i ! j ! (2 - c)) - mean L ! c) [0..<W]) [0..<H])"
      using r(1) by simp
  next
    fix i assume "i < length (map (map (\<lambda>px. px ! c)) ?A)"
    then have i: "i < H" using r(1) by simp
    show "map (map (\<lambda>px. px ! c)) ?A ! i =
        map (\<lambda>i. map (\<lambda>j. to_float (img ! i ! j ! (2 - c)) - mean L ! c) [0..<W]) [0..<H] ! i"
    proof (rule nth_equalityI)
      show "length (map (map (\<lambda>px. px ! c)) ?A ! i) =
          length (map (\<lambda>i. map (\<lambda>j. to_float (img ! i ! j ! (2 - c)) - mean L ! c) [0..<W])
            [0..<H] ! i)"
        using i r(1) r(2) [OF i] by simp
    next
      fix j assume "j < length (map (map (\<lambda>px. px ! c)) ?A ! i)"
      then have j: "j < W" using i r(1) r(2) [OF i] by simp
      show "map (map (\<lambda>px. px ! c)) ?A ! i ! j =
          map (\<lambda>i. map (\<lambda>j. to_float (img ! i ! j ! (2 - c)) - mean L ! c) [0..<W]) [0..<H] ! i ! j"
        using i j r(1) r(2) [OF i] sub_mean_nth [OF r(3) [OF i j] assms(5) c]
        by simp
    qed
  qed
  have "transpose_201 3 ?A = load_image_ref (mean L) H W img"
    unfolding transpose_201_def load_image_ref_def
    by (rule map_cong [OF refl], rule plane, simp)
  then show ?thesis
    using assms(1,5) ch by (simp add: load_image_def Let_def)
qed

lemma shape_transpose_201:
  assumes "length A = H" and "list_all (\<lambda>row. length row = W) A" and "1 \<le> C" and "1 \<le> H"
  shows "shape (of_list3 (transpose_201 C A)) = [C, H, W]"
proof -
  from assms(3) obtain C' where C: "C = Suc C'" by (cases C) auto
  have u: "[0..<Suc C'] = 0 # [Suc 0..<Suc C']" by (simp add: upt_rec)
  have r: "rect2 H W (map (map (\<lambda>px. px ! 0)) A)"
    using assms(1,2) by (simp add: rect2_def list_all_length)
  show ?thesis
    unfolding transpose_201_def C u
    using shape_of_list2 [OF r assms(4)] by (simp add: of_list3_def)
qed

lemma load_image_shape:
  assumes "image_file fs (image_path v (maindir L) name) = Some (Bands img)"
    and "rect3 H W 3 img" and "1 \<le> H" and "1 \<le> W"
    and "load_image v fs L name = Inr d"
  shows "shape d = [3, H, W]"
proof -
  let ?in1 = "map (map rev) (map (map (map to_float)) img)"
  let ?A = "map (map (\<lambda>px. sub_mean px (mean L))) ?in1"
  have in1: "?in1 = map (map (\<lambda>p. rev (map to_float p))) img" by simp
  have ch: "channels ?in1 = 3"
    unfolding in1 using channels_map [of "\<lambda>p. rev (map to_float p)" img]
      channels_rect3 [OF assms(2-4)] by simp
  have d: "d = of_list3 (transpose_201 3 ?A)"
    using assms(1,5) ch by (simp add: load_image_def Let_def split: if_splits)
  have "length ?A = H" and "list_all (\<lambda>row. length row = W) ?A"
    using assms(2) by (simp_all add: rect3_def list_all_length)
  from shape_transpose_201 [OF this _ assms(3), of 3] d show ?thesis by simp
qed

lemma load_label_gray_shape:
  assumes "image_file fs (label_path v (maindir L) name) = Some (Gray lab)"
    and "rect2 H W lab" and "1 \<le> H"
  shows "\<exists>l. load_label v fs L name = Inr l \<and> label_shape l = [1, H, W]"
  using assms shape_of_list2 [OF assms(2,3)]
  by (simp add: load_label_def label_values_def shape_map_ndarray)



text \<open>
  C9. For a sample whose picture has three bands, \<open>H\<close> rows and \<open>W\<close> columns and whose
  label picture has one band and the same \<open>H\<close> and \<open>W\<close>: whenever \<open>load_image\<close> returns,
  the image array has shape \<open>(3, H, W)\<close>, and it returns for a mean of three entries;
  \<open>load_label\<close> returns an array of shape \<open>(1, H, W)\<close>; and \<open>reshape\<close> at that sample
  stores both and announces the shapes \<open>(1, 3, H, W)\<close> and \<open>(1, 1, H, W)\<close>, the leading
  1 being the batch axis. So the two arrays of the sample have the same height and width.
\<close>

theorem sample_shapes:
  assumes "image_file fs (image_path v (maindir L) name) = Some (Bands img)"
    and "rect3 H W 3 img" and "1 \<le> H" and "1 \<le> W"
    and "image_file fs (label_path v (maindir L) name) = Some (Gray lab)"
    and "rect2 H W lab"
  shows "(\<forall>d. load_image v fs L name = Inr d \<longrightarrow> shape d = [3, H, W]) \<and>
    (length (mean L) = 3 \<longrightarrow> (\<exists>d. load_image v fs L name = Inr d \<and> shape d = [3, H, W])) \<and>
    (\<exists>l. load_label v fs L name = Inr l \<and> label_shape l = [1, H, W]) \<and>
    (\<forall>tops. list_get (indices L) (idx L) = Inr name \<and> length (mean L) = 3 \<and>
       length tops = 2 \<longrightarrow>
       (\<exists>L1 t0 t1 d l. reshape v fs L tops = (None, L1, [t0, t1]) \<and>
          data L1 = Some d \<and> label L1 = Some l \<and>
          shape d = [3, H, W] \<and> label_shape l = [1, H, W] \<and>
          bshape t0 = [1, 3, H, W] \<and> bshape t1 = [1, 1, H, W]))"
proof -
  have a: "\<forall>d. load_image v fs L name = Inr d \<longrightarrow> shape d = [3, H, W]"
    using load_image_shape [OF assms(1-4)] by blast
  have b: "\<exists>d. load_image v fs L name = Inr d \<and> shape d = [3, H, W]"
    if "length (mean L) = 3"
    using load_image_rgb [OF assms(1-4) that] a by blast
  have c: "\<exists>l. load_label v fs L name = Inr l \<and> label_shape l = [1, H, W]"
    using assms(5,6,3) by (rule load_label_gray_shape)
  have d: "\<exists>L1 t0 t1 d l. reshape v fs L tops = (None, L1, [t0, t1]) \<and>
          data L1 = Some d \<and> label L1 = Some l \<and>
          shape d = [3, H, W] \<and> label_shape l = [1, H, W] \<and>
          bshape t0 = [1, 3, H, W] \<and> bshape t1 = [1, 1, H, W]"
    if h: "list_get (indices L) (idx L) = Inr name \<and> length (mean L) = 3 \<and> length tops = 2"
    for tops
  proof -
    from b h obtain d where d: "load_image v fs L name = Inr d" "shape d = [3, H, W]"
      by blast
    from c obtain l where l: "load_label v fs L name = Inr l" "label_shape l = [1, H, W]"
      by blast
    from h obtain u0 u1 where t: "tops = [u0, u1]"
      by (cases tops; cases "tl tops") auto
    have "reshape v fs L tops =
        (None, L\<lparr>data := Some d, label := Some l\<rparr>,
         [u0\<lparr>bshape := 1 # shape d\<rparr>, u1\<lparr>bshape := 1 # label_shape l\<rparr>])"
      using h d(1) l(1) t by (simp add: reshape_def Let_def load_label_upd)
    with d(2) l(2) show ?thesis by simp
  qed
  have b': "length (mean L) = 3 \<longrightarrow>
      (\<exists>d. load_image v fs L name = Inr d \<and> shape d = [3, H, W])"
    using b by (intro impI)
  have d': "\<forall>tops. list_get (indices L) (idx L) = Inr name \<and> length (mean L) = 3 \<and>
       length tops = 2 \<longrightarrow>
       (\<exists>L1 t0 t1 d l. reshape v fs L tops = (None, L1, [t0, t1]) \<and>
          data L1 = Some d \<and> label L1 = Some l \<and>
          shape d = [3, H, W] \<and> label_shape l = [1, H, W] \<and>
          bshape t0 = [1, 3, H, W] \<and> bshape t1 = [1, 1, H, W])"
    using d by (intro allI impI)
  show ?thesis
    by (intro conjI a b' c d')
qed

theorem sample_shapes_witness:
  "image_file rgb_fs (image_path GDIDataLayerImp (maindir rgb_layer) ''s'') = Some (Bands rgb44) \<and>
   rect3 4 4 3 rgb44 \<and>
   image_file rgb_fs (label_path GDIDataLayerImp (maindir rgb_layer) ''s'') = Some (Gray gray44) \<and>
   rect2 4 4 gray44 \<and>
   list_get (indices rgb_layer) (idx rgb_layer) = Inr ''s'' \<and> length (mean rgb_layer) = 3 \<and>
   (\<exists>L1 t0 t1 d l. reshape GDIDataLayerImp rgb_fs rgb_layer [blob0, blob0] = (None, L1, [t0, t1]) \<and>
      data L1 = Some d \<and> label L1 = Some l \<and>
      shape d = [3, 4, 4] \<and> label_shape l = [1, 4, 4] \<and>
      bshape t0 = [1, 3, 4, 4] \<and> bshape t1 = [1, 1, 4, 4])"
proof -
  have f: "image_file rgb_fs (image_path GDIDataLayerImp (maindir rgb_layer) ''s'') =
      Some (Bands rgb44)"
    by (simp add: rgb_fs_def image_path_def rgb_layer_def)
  have r: "rect3 4 4 3 rgb44"
    by (simp add: rect3_def rgb44_def)
  have g: "image_file rgb_fs (label_path GDIDataLayerImp (maindir rgb_layer) ''s'') =
      Some (Gray gray44)"
    by (simp add: rgb_fs_def label_path_def rgb_layer_def)
  have q: "rect2 4 4 gray44"
    by (simp add: rect2_def gray44_def)
  have n: "list_get (indices rgb_layer) (idx rgb_layer) = Inr ''s''"
    and m: "length (mean rgb_layer) = 3"
    by (simp_all add: rgb_layer_def list_get_def)
  note th = sample_shapes [OF f r _ _ g q]
  have "\<exists>L1 t0 t1 d l. reshape GDIDataLayerImp rgb_fs rgb_layer [blob0, blob0] = (None, L1, [t0, t1]) \<and>
      data L1 = Some d \<and> label L1 = Some l \<and>
      shape d = [3, 4, 4] \<and> label_shape l = [1, 4, 4] \<and>
      bshape t0 = [1, 3, 4, 4] \<and> bshape t1 = [1, 1, 4, 4]"
    using th n m by simp
  with f r g q n m show ?thesis by blast
qed




end
